theory Spec2Isabelle
  imports Complex_Main
begin

section \<open>The void-galaxy RSD model evaluator (python\_tools/rsdmodel.py, mcmc.py)\<close>

text \<open>
  The program computes with IEEE doubles through numpy and scipy. The embedding takes
  every finite double as a \<open>real\<close> and every arithmetic operation as the exact
  operation on the reals; the three non-finite results the program itself produces or
  tests for (\<open>-np.inf\<close> of the prior, \<open>np.log\<close> of a non-positive number) are
  values of the type \<open>pyfloat\<close>. The definitions agree with the program wherever no
  intermediate operation leaves the finite reals: divisors are non-zero, square roots
  are taken of non-negative numbers, and \<open>epsilon\<close> is positive.

  A Python exception is a value \<open>Inl e\<close> of the result type \<open>error + 'a\<close>.
\<close>

subsection \<open>Errors and floats\<close>

datatype error = ValueError | UnboundLocalError | IndexError | AttributeError | FitpackError

datatype pyfloat = Fin real | PosInf | NegInf | NaN

text \<open>\<open>np.isfinite\<close>.\<close>

fun isfinite :: "pyfloat \<Rightarrow> bool" where
  "isfinite (Fin x) = True"
| "isfinite PosInf = False"
| "isfinite NegInf = False"
| "isfinite NaN = False"

text \<open>Float addition, with the IEEE rules for the non-finite operands.\<close>

fun fadd :: "pyfloat \<Rightarrow> pyfloat \<Rightarrow> pyfloat" where
  "fadd (Fin a) (Fin b) = Fin (a + b)"
| "fadd NaN y = NaN"
| "fadd x NaN = NaN"
| "fadd PosInf NegInf = NaN"
| "fadd NegInf PosInf = NaN"
| "fadd PosInf y = PosInf"
| "fadd x PosInf = PosInf"
| "fadd NegInf y = NegInf"
| "fadd x NegInf = NegInf"

text \<open>
  \<open>np.log\<close> on a double: the logarithm of a positive number, \<open>-inf\<close> at zero and
  \<open>nan\<close> below zero (numpy warns and does not raise).
\<close>

definition np_log :: "real \<Rightarrow> pyfloat" where
  "np_log x = (if 0 < x then Fin (ln x) else if x = 0 then NegInf else NaN)"

text \<open>The product of a finite double \<open>c\<close> with a float.\<close>

fun fscale :: "real \<Rightarrow> pyfloat \<Rightarrow> pyfloat" where
  "fscale c (Fin x) = Fin (c * x)"
| "fscale c NaN = NaN"
| "fscale c PosInf = (if 0 < c then PosInf else if c < 0 then NegInf else NaN)"
| "fscale c NegInf = (if 0 < c then NegInf else if c < 0 then PosInf else NaN)"

text \<open>Sequencing of a computation that may raise.\<close>

definition bind_err :: "error + 'a \<Rightarrow> ('a \<Rightarrow> error + 'b) \<Rightarrow> error + 'b" where
  "bind_err r f = (case r of Inl e \<Rightarrow> Inl e | Inr v \<Rightarrow> f v)"

text \<open>A loop that collects one result per iteration and stops at the first exception.\<close>

fun collect :: "(error + 'a) list \<Rightarrow> error + 'a list" where
  "collect [] = Inr []"
| "collect (r # rs) =
     (case r of Inl e \<Rightarrow> Inl e
      | Inr v \<Rightarrow> (case collect rs of Inl e \<Rightarrow> Inl e | Inr vs \<Rightarrow> Inr (v # vs)))"

subsection \<open>numpy helpers\<close>

text \<open>\<open>np.linspace(a, b, n)\<close>: \<open>n\<close> evenly spaced samples from \<open>a\<close> to \<open>b\<close>.\<close>

definition linspace :: "real \<Rightarrow> real \<Rightarrow> nat \<Rightarrow> real list" where
  "linspace a b n = map (\<lambda>i. a + real i * ((b - a) / real (n - 1))) [0..<n]"

text \<open>
  \<open>np.trapz(y, x)\<close>: the sum of \<open>(x[i+1] - x[i]) * (y[i+1] + y[i]) / 2\<close>.
  Every call in the program passes two arrays of one length.
\<close>

fun trapz :: "real list \<Rightarrow> real list \<Rightarrow> real" where
  "trapz (y0 # y1 # ys) (x0 # x1 # xs) =
     (x1 - x0) * (y1 + y0) / 2 + trapz (y1 # ys) (x1 # xs)"
| "trapz ys xs = 0"

text \<open>
  \<open>np.argsort(a)\<close>: the indices that sort \<open>a\<close>; \<open>take_idx a idx\<close> is the fancy
  indexing \<open>a[idx]\<close>.
\<close>

definition argsort :: "real list \<Rightarrow> nat list" where
  "argsort a = map snd (sort_key fst (zip a [0..<length a]))"

definition take_idx :: "real list \<Rightarrow> nat list \<Rightarrow> real list" where
  "take_idx a idx = map (\<lambda>i. a ! i) idx"


text \<open>
  \<open>a - b\<close> on one-dimensional arrays: element by element, a one-element array being
  broadcast, any other pair of different lengths raising.
\<close>

definition np_sub :: "real list \<Rightarrow> real list \<Rightarrow> error + real list" where
  "np_sub a b =
     (if length a = length b then Inr (map2 (-) a b)
      else if length a = 1 then Inr (map (\<lambda>y. hd a - y) b)
      else if length b = 1 then Inr (map (\<lambda>x. x - hd b) a)
      else Inl ValueError)"

text \<open>
  \<open>np.dot(v, M)\<close> of a vector with a two-dimensional array (a list of rows of one
  length): entry \<open>j\<close> is the sum of \<open>v[i] * M[i][j]\<close>.
\<close>

definition np_dot_vm :: "real list \<Rightarrow> real list list \<Rightarrow> error + real list" where
  "np_dot_vm v M =
     (if length v \<noteq> length M then Inl ValueError
      else Inr (map (\<lambda>j. sum_list (map2 (\<lambda>vi row. vi * row ! j) v M))
                    [0..<(case M of [] \<Rightarrow> 0 | row # _ \<Rightarrow> length row)]))"

text \<open>\<open>np.dot(a, b)\<close> of two vectors.\<close>

definition np_dot_vv :: "real list \<Rightarrow> real list \<Rightarrow> error + real" where
  "np_dot_vv a b =
     (if length a \<noteq> length b then Inl ValueError else Inr (sum_list (map2 (*) a b)))"

subsection \<open>Interpolating splines\<close>

text \<open>
  \<open>InterpolatedUnivariateSpline(x, y, k=3, ext=...)\<close> of scipy. The program uses the
  extrapolation modes \<open>ext=0\<close> (the default: evaluate the end polynomial outside the
  sampled range) and \<open>ext=3\<close> (return the boundary value).

  The piecewise polynomial that FITPACK fits to the samples is a parameter \<open>fit\<close> of
  the model: \<open>fit k x y\<close> is that polynomial, continued beyond \<open>x[0]\<close> and \<open>x[-1]\<close>
  by its end pieces.
\<close>

datatype extmode = Ext0 | Ext3

record spline =
  sp_lo :: real
  sp_hi :: real
  sp_ext :: extmode
  sp_pp :: "real \<Rightarrow> real"

type_synonym fitter = "nat \<Rightarrow> real list \<Rightarrow> real list \<Rightarrow> real \<Rightarrow> real"

text \<open>
  The constructor raises when the abscissae are not strictly increasing and when there
  are not more than \<open>k\<close> samples.
\<close>

definition InterpolatedUnivariateSpline ::
    "fitter \<Rightarrow> real list \<Rightarrow> real list \<Rightarrow> nat \<Rightarrow> extmode \<Rightarrow> error + spline" where
  "InterpolatedUnivariateSpline fit x y k ext =
     (if length x \<noteq> length y then Inl ValueError
      else if \<not> sorted_wrt (<) x then Inl ValueError
      else if length x \<le> k then Inl FitpackError
      else Inr \<lparr>sp_lo = hd x, sp_hi = last x, sp_ext = ext, sp_pp = fit k x y\<rparr>)"

text \<open>Calling a spline at a point \<open>q\<close> (FITPACK's \<open>splev\<close>).\<close>

definition spline_call :: "spline \<Rightarrow> real \<Rightarrow> real" where
  "spline_call sp q =
     (case sp_ext sp of
        Ext0 \<Rightarrow> sp_pp sp q
      | Ext3 \<Rightarrow> sp_pp sp (if q < sp_lo sp then sp_lo sp
                           else if sp_hi sp < q then sp_hi sp else q))"

text \<open>
  With exactly four samples and \<open>k = 3\<close> the spline has no interior knot: it is the
  cubic polynomial through the four points, here in Lagrange form. It is the instance of
  \<open>fit\<close> used on concrete four-sample inputs.
\<close>

definition lagrange_basis :: "real list \<Rightarrow> real \<Rightarrow> real \<Rightarrow> real" where
  "lagrange_basis xs xi q =
     prod_list (map (\<lambda>xj. (q - xj) / (xi - xj)) (filter (\<lambda>xj. xj \<noteq> xi) xs))"

definition cubic_fit :: fitter where
  "cubic_fit k xs ys q = sum_list (map2 (\<lambda>xi yi. yi * lagrange_basis xs xi q) xs ys)"

subsection \<open>The model object\<close>

text \<open>
  The attributes of an \<open>RSDModel\<close> that its methods read, as \<open>__init__\<close> leaves them.
  \<open>sv\<close> is set only when the model id is 1 or 3, \<open>vr\<close> and \<open>dvr\<close> only when it
  is 3; reading an attribute that was not set raises \<open>AttributeError\<close>.
  \<open>s8norm\<close> and \<open>iaH\<close> come from the external cosmology provider.
\<close>

record rsdmodel =
  model :: int
  full_fit :: bool
  s8norm :: real
  iaH :: real
  icov :: "real list list"
  xi_r :: spline
  delta_r :: spline
  Delta_r :: spline
  sv :: "spline option"
  vr :: "spline option"
  dvr :: "spline option"
  r_for_delta :: "real list"
  s_for_xi :: "real list"
  mu_for_xi :: "real list"
  datavec :: "real list"

text \<open>\<open>self.nmocks = 300\<close>.\<close>

definition nmocks :: int where
  "nmocks = 300"

type_synonym integrator = "real list \<Rightarrow> real list \<Rightarrow> real"

subsection \<open>Rescaling step of the theory evaluators\<close>

text \<open>
  Lines 184-190 (repeated at 251-257 and 306-312): for each radius the trapezoidal
  average of the anisotropic stretch over 100 samples of \<open>mu\<close> in \<open>[0, 1]\<close>.
\<close>

definition rescaled_r :: "real \<Rightarrow> real \<Rightarrow> real list \<Rightarrow> real list" where
  "rescaled_r alpha_perp alpha_para r =
     (let mus = linspace 0 1 100 in
      map (\<lambda>ri. trapz (map (\<lambda>mu. (ri * alpha_para) *
                 sqrt (1 + (1 - mu ^ 2) * (alpha_perp ^ 2 / alpha_para ^ 2 - 1))) mus) mus) r)"

text \<open>
  One rebuilt interpolant: the profile \<open>prof\<close> sampled at the radii \<open>r\<close>, relabelled
  with the rescaled radii, with \<open>k=3\<close> and the extrapolation mode the source line gives.
\<close>

definition rescaled_spline ::
    "fitter \<Rightarrow> extmode \<Rightarrow> real \<Rightarrow> real \<Rightarrow> real list \<Rightarrow> spline \<Rightarrow> error + spline" where
  "rescaled_spline fit ext alpha_perp alpha_para r prof =
     InterpolatedUnivariateSpline fit (rescaled_r alpha_perp alpha_para r)
       (map (spline_call prof) r) 3 ext"

text \<open>
  Lines 192-202 of \<open>model1_theory\<close>: \<open>rescaled_xi_r\<close> is built without \<open>ext\<close>,
  the other three with \<open>ext=3\<close>.
\<close>

definition model1_rescaled ::
    "fitter \<Rightarrow> rsdmodel \<Rightarrow> real \<Rightarrow> real \<Rightarrow> error + (spline \<times> spline \<times> spline \<times> spline)" where
  "model1_rescaled fit m alpha_perp alpha_para =
     (let r = r_for_delta m in
      case sv m of None \<Rightarrow> Inl AttributeError
      | Some sv_prof \<Rightarrow>
        bind_err (rescaled_spline fit Ext0 alpha_perp alpha_para r (xi_r m)) (\<lambda>rescaled_xi_r.
        bind_err (rescaled_spline fit Ext3 alpha_perp alpha_para r (delta_r m)) (\<lambda>rescaled_delta_r.
        bind_err (rescaled_spline fit Ext3 alpha_perp alpha_para r (Delta_r m)) (\<lambda>rescaled_Delta_r.
        bind_err (rescaled_spline fit Ext3 alpha_perp alpha_para r sv_prof) (\<lambda>rescaled_sv.
        Inr (rescaled_xi_r, rescaled_delta_r, rescaled_Delta_r, rescaled_sv))))))"

text \<open>Lines 259-267 of \<open>model2_theory\<close>.\<close>

definition model2_rescaled ::
    "fitter \<Rightarrow> rsdmodel \<Rightarrow> real \<Rightarrow> real \<Rightarrow> error + (spline \<times> spline \<times> spline)" where
  "model2_rescaled fit m alpha_perp alpha_para =
     (let r = r_for_delta m in
        bind_err (rescaled_spline fit Ext0 alpha_perp alpha_para r (xi_r m)) (\<lambda>rescaled_xi_r.
        bind_err (rescaled_spline fit Ext3 alpha_perp alpha_para r (delta_r m)) (\<lambda>rescaled_delta_r.
        bind_err (rescaled_spline fit Ext3 alpha_perp alpha_para r (Delta_r m)) (\<lambda>rescaled_Delta_r.
        Inr (rescaled_xi_r, rescaled_delta_r, rescaled_Delta_r)))))"

text \<open>Lines 314-328 of \<open>model3_theory\<close>.\<close>

definition model3_rescaled ::
    "fitter \<Rightarrow> rsdmodel \<Rightarrow> real \<Rightarrow> real \<Rightarrow>
     error + (spline \<times> spline \<times> spline \<times> spline \<times> spline \<times> spline)" where
  "model3_rescaled fit m alpha_perp alpha_para =
     (let r = r_for_delta m in
      case vr m of None \<Rightarrow> Inl AttributeError
      | Some vr_prof \<Rightarrow>
      (case dvr m of None \<Rightarrow> Inl AttributeError
      | Some dvr_prof \<Rightarrow>
      (case sv m of None \<Rightarrow> Inl AttributeError
      | Some sv_prof \<Rightarrow>
        bind_err (rescaled_spline fit Ext0 alpha_perp alpha_para r (xi_r m)) (\<lambda>rescaled_xi_r.
        bind_err (rescaled_spline fit Ext3 alpha_perp alpha_para r (delta_r m)) (\<lambda>rescaled_delta_r.
        bind_err (rescaled_spline fit Ext3 alpha_perp alpha_para r (Delta_r m)) (\<lambda>rescaled_Delta_r.
        bind_err (rescaled_spline fit Ext3 alpha_perp alpha_para r vr_prof) (\<lambda>rescaled_vr.
        bind_err (rescaled_spline fit Ext3 alpha_perp alpha_para r dvr_prof) (\<lambda>rescaled_dvr.
        bind_err (rescaled_spline fit Ext3 alpha_perp alpha_para r sv_prof) (\<lambda>rescaled_sv.
        Inr (rescaled_xi_r, rescaled_delta_r, rescaled_Delta_r,
             rescaled_vr, rescaled_dvr, rescaled_sv))))))))))"

subsection \<open>Multipole reduction\<close>

text \<open>
  The Legendre-weighted Simpson integrals of an interpolant \<open>mufunc\<close> over the
  1000-point grid on \<open>[-1, 1]\<close>. \<open>simps\<close> of scipy is a parameter of the model.
\<close>

definition monopole_of :: "integrator \<Rightarrow> spline \<Rightarrow> real" where
  "monopole_of simps mufunc =
     (let xaxis = linspace (-1) 1 1000;
          yaxis = map (\<lambda>x. spline_call mufunc x / 2) xaxis
      in simps yaxis xaxis)"

definition quadrupole_of :: "integrator \<Rightarrow> spline \<Rightarrow> real" where
  "quadrupole_of simps mufunc =
     (let xaxis = linspace (-1) 1 1000;
          yaxis = map (\<lambda>x. spline_call mufunc x * 5 / 2 * (3 * x ^ 2 - 1) / 2) xaxis
      in simps yaxis xaxis)"

text \<open>
  Lines 228-238 of \<open>model1_theory\<close> (and 284-294 of \<open>model2_theory\<close>): the per-mu
  samples are sorted by \<open>true_mu\<close> before the interpolant is built.
\<close>

definition theory_multipoles ::
    "fitter \<Rightarrow> integrator \<Rightarrow> real list \<Rightarrow> real list \<Rightarrow> error + (real \<times> real)" where
  "theory_multipoles fit simps true_mu xi_model =
     bind_err (InterpolatedUnivariateSpline fit (take_idx true_mu (argsort true_mu))
                 (take_idx xi_model (argsort true_mu)) 3 Ext0) (\<lambda>mufunc.
     Inr (monopole_of simps mufunc, quadrupole_of simps mufunc))"

text \<open>Lines 373-383 of \<open>model3_theory\<close>: the same reduction without the sort.\<close>

definition theory3_multipoles ::
    "fitter \<Rightarrow> integrator \<Rightarrow> real list \<Rightarrow> real list \<Rightarrow> error + (real \<times> real)" where
  "theory3_multipoles fit simps true_mu xi_model =
     bind_err (InterpolatedUnivariateSpline fit true_mu xi_model 3 Ext0) (\<lambda>mufunc.
     Inr (monopole_of simps mufunc, quadrupole_of simps mufunc))"

subsection \<open>The three theory evaluators\<close>

text \<open>
  Lines 208-225: the streaming model with dispersion at one \<open>(s[i], mu[j])\<close>; the
  result is the pair \<open>(true_mu[j], xi_model[j])\<close>.
\<close>

definition model1_point ::
    "spline \<times> spline \<times> spline \<times> spline \<Rightarrow> real \<Rightarrow> real \<Rightarrow> real \<Rightarrow> real \<Rightarrow> real \<Rightarrow>
     real \<Rightarrow> real \<Rightarrow> real \<times> real" where
  "model1_point R scaled_fs8 sigma_v iaH_m alpha_perp alpha_para si muj =
     (case R of (rescaled_xi_r, rescaled_delta_r, rescaled_Delta_r, rescaled_sv) \<Rightarrow>
      let true_sperp = si * sqrt (1 - muj ^ 2) * alpha_perp;
          true_spar = si * muj * alpha_para;
          true_s = sqrt (true_spar ^ 2 + true_sperp ^ 2);
          true_mu = true_spar / true_s;
          rpar = true_spar + true_s * scaled_fs8 * spline_call rescaled_Delta_r true_s
                   * true_mu / 3;
          sy_central = sigma_v * spline_call rescaled_sv (sqrt (true_sperp ^ 2 + rpar ^ 2))
                         * iaH_m;
          y = linspace (-3 * sy_central) (3 * sy_central) 100;
          integrand = map (\<lambda>yk.
             let rpary = rpar - yk;
                 rr = sqrt (true_sperp ^ 2 + rpary ^ 2)
             in (1 + spline_call rescaled_xi_r rr) *
                (1 + (scaled_fs8 * spline_call rescaled_Delta_r rr / 3 - yk * true_mu / rr)
                       * (1 - true_mu ^ 2)
                   + scaled_fs8 * (spline_call rescaled_delta_r rr
                                    - 2 * spline_call rescaled_Delta_r rr / 3) * true_mu ^ 2)
                * exp (- (yk ^ 2) / (2 * sy_central ^ 2)) / (sqrt (2 * pi) * sy_central)) y
      in (true_mu, trapz integrand y - 1))"

definition model1_theory ::
    "fitter \<Rightarrow> integrator \<Rightarrow> rsdmodel \<Rightarrow> real \<Rightarrow> real \<Rightarrow> real \<Rightarrow> real \<Rightarrow>
     real list \<Rightarrow> real list \<Rightarrow> error + (real list \<times> real list)" where
  "model1_theory fit simps m fs8 sigma_v alpha_perp alpha_para s mu =
     (let scaled_fs8 = fs8 / s8norm m in
      bind_err (model1_rescaled fit m alpha_perp alpha_para) (\<lambda>R.
      let sigma_v' = alpha_para * sigma_v in
      bind_err (collect (map (\<lambda>si.
          let pts = map (model1_point R scaled_fs8 sigma_v' (iaH m) alpha_perp alpha_para si) mu
          in theory_multipoles fit simps (map fst pts) (map snd pts)) s)) (\<lambda>res.
      Inr (map fst res, map snd res))))"

text \<open>Lines 271-281: the linear model at one \<open>(s[i], mu[j])\<close>.\<close>

definition model2_point ::
    "spline \<times> spline \<times> spline \<Rightarrow> real \<Rightarrow> real \<Rightarrow> real \<Rightarrow> real \<Rightarrow> real \<Rightarrow> real \<times> real" where
  "model2_point R scaled_fs8 alpha_perp alpha_para si muj =
     (case R of (rescaled_xi_r, rescaled_delta_r, rescaled_Delta_r) \<Rightarrow>
      let true_sperp = si * sqrt (1 - muj ^ 2) * alpha_perp;
          true_spar = si * muj * alpha_para;
          true_s = sqrt (true_spar ^ 2 + true_sperp ^ 2);
          true_mu = true_spar / true_s;
          r = true_s * (1 + scaled_fs8 / 3 * spline_call rescaled_Delta_r true_s * true_mu ^ 2)
      in (true_mu,
          spline_call rescaled_xi_r r
          + scaled_fs8 / 3 * spline_call rescaled_Delta_r r * (1 + spline_call rescaled_xi_r r)
          + scaled_fs8 * true_mu ^ 2
              * (spline_call rescaled_delta_r r - spline_call rescaled_Delta_r r)
              * (1 + spline_call rescaled_xi_r r)))"

definition model2_theory ::
    "fitter \<Rightarrow> integrator \<Rightarrow> rsdmodel \<Rightarrow> real \<Rightarrow> real \<Rightarrow> real \<Rightarrow>
     real list \<Rightarrow> real list \<Rightarrow> error + (real list \<times> real list)" where
  "model2_theory fit simps m fs8 alpha_perp alpha_para s mu =
     (let scaled_fs8 = fs8 / s8norm m in
      bind_err (model2_rescaled fit m alpha_perp alpha_para) (\<lambda>R.
      bind_err (collect (map (\<lambda>si.
          let pts = map (model2_point R scaled_fs8 alpha_perp alpha_para si) mu
          in theory_multipoles fit simps (map fst pts) (map snd pts)) s)) (\<lambda>res.
      Inr (map fst res, map snd res))))"

text \<open>
  Lines 334-367: the streaming model with coherent infall at one \<open>(s[i], mu[j])\<close>.
  \<open>fsolve\<close> of scipy is a parameter: \<open>fsolve f x0\<close> is the root estimate it returns
  for the residual \<open>f\<close> from the seed \<open>x0\<close>.
\<close>

definition model3_point ::
    "((real \<Rightarrow> real) \<Rightarrow> real \<Rightarrow> real) \<Rightarrow>
     spline \<times> spline \<times> spline \<times> spline \<times> spline \<times> spline \<Rightarrow> real \<Rightarrow> real \<Rightarrow> real \<Rightarrow>
     real \<Rightarrow> real \<Rightarrow> real \<Rightarrow> real \<times> real" where
  "model3_point fsolve R sigma_v iaH_m alpha_perp alpha_para si muj =
     (case R of (rescaled_xi_r, rescaled_delta_r, rescaled_Delta_r,
                 rescaled_vr, rescaled_dvr, rescaled_sv) \<Rightarrow>
      let true_sperp = si * sqrt (1 - muj ^ 2) * alpha_perp;
          true_spar = si * muj * alpha_para;
          true_s = sqrt (true_spar ^ 2 + true_sperp ^ 2);
          true_mu = true_spar / true_s;
          residual = (\<lambda>rpar.
             let rperp = true_sperp;
                 r = sqrt (rpar ^ 2 + rperp ^ 2);
                 mu = rpar / r
             in rpar - true_spar + spline_call rescaled_vr r * mu ^ 2 * iaH_m);
          rpar = fsolve residual true_spar;
          sy_central = sigma_v * spline_call rescaled_sv (sqrt (true_sperp ^ 2 + rpar ^ 2))
                         * iaH_m;
          y = linspace (-5 * sy_central) (5 * sy_central) 100;
          integrand = map (\<lambda>yk.
             let rpar = fsolve residual true_spar - yk;
                 rr = sqrt (true_sperp ^ 2 + rpar ^ 2);
                 sy = sigma_v * spline_call rescaled_sv rr * iaH_m
             in (1 + spline_call rescaled_xi_r rr) *
                inverse (1 + spline_call rescaled_vr rr / (rr / iaH_m)
                         + (spline_call rescaled_dvr rr - spline_call rescaled_vr rr / rr)
                             * iaH_m * true_mu ^ 2)
                * exp (- (yk ^ 2) / (2 * sy ^ 2)) / (sqrt (2 * pi) * sy)) y
      in (true_mu, trapz integrand y - 1))"

definition model3_theory ::
    "fitter \<Rightarrow> integrator \<Rightarrow> ((real \<Rightarrow> real) \<Rightarrow> real \<Rightarrow> real) \<Rightarrow> rsdmodel \<Rightarrow>
     real \<Rightarrow> real \<Rightarrow> real \<Rightarrow> real \<Rightarrow> real list \<Rightarrow> real list \<Rightarrow>
     error + (real list \<times> real list)" where
  "model3_theory fit simps fsolve m fs8 sigma_v alpha_perp alpha_para s mu =
     (let scaled_fs8 = fs8 / s8norm m in
      bind_err (model3_rescaled fit m alpha_perp alpha_para) (\<lambda>R.
      let sigma_v' = alpha_para * sigma_v in
      bind_err (collect (map (\<lambda>si.
          let pts = map (model3_point fsolve R sigma_v' (iaH m) alpha_perp alpha_para si) mu
          in theory3_multipoles fit simps (map fst pts) (map snd pts)) s)) (\<lambda>res.
      Inr (map fst res, map snd res))))"

subsection \<open>Likelihood, prior and combined probability\<close>

text \<open>
  Lines 131-134 of \<open>log_likelihood\<close>: the tuple unpacking of \<open>theta\<close>. The result is
  \<open>(fs8, sigma_v, epsilon)\<close> where \<open>sigma_v\<close> is \<open>None\<close> when the local variable
  was not bound. Unpacking a sequence of another length raises \<open>ValueError\<close>.
\<close>

definition unpack_theta :: "rsdmodel \<Rightarrow> real list \<Rightarrow> error + (real \<times> real option \<times> real)" where
  "unpack_theta m theta =
     (if model m = 1 then
        (case theta of [fs8, sigma_v, epsilon] \<Rightarrow> Inr (fs8, Some sigma_v, epsilon)
         | _ \<Rightarrow> Inl ValueError)
      else
        (case theta of [fs8, epsilon] \<Rightarrow> Inr (fs8, None, epsilon)
         | _ \<Rightarrow> Inl ValueError))"

text \<open>
  Lines 136-152: the distortion parameters and the choice of the evaluator. Reading the
  unbound local \<open>sigma_v\<close> raises \<open>UnboundLocalError\<close> before the call is made.
  \<open>epsilon ** (-2/3)\<close> is the real power (Python 3 division), which \<open>powr\<close>
  gives for a positive \<open>epsilon\<close>.
\<close>

definition predicted_multipoles ::
    "fitter \<Rightarrow> integrator \<Rightarrow> rsdmodel \<Rightarrow> real list \<Rightarrow> error + (real list \<times> real list)" where
  "predicted_multipoles fit simps m theta =
     bind_err (unpack_theta m theta) (\<lambda>(fs8, sigma_v_local, epsilon).
     let alpha = 1;
         alpha_para = alpha * epsilon powr (- 2 / 3);
         alpha_perp = epsilon * alpha_para
     in if model m = 1 \<or> model m = 3 then
          (case sigma_v_local of None \<Rightarrow> Inl UnboundLocalError
           | Some sigma_v \<Rightarrow>
               model1_theory fit simps m fs8 sigma_v alpha_perp alpha_para
                 (s_for_xi m) (mu_for_xi m))
        else model2_theory fit simps m fs8 alpha_perp alpha_para (s_for_xi m) (mu_for_xi m))"

text \<open>Lines 154-161: the chi-squared and the Sellentin-Heavens form.\<close>

definition chi2_of :: "rsdmodel \<Rightarrow> real list \<Rightarrow> error + real" where
  "chi2_of m modelvec =
     bind_err (np_sub modelvec (datavec m)) (\<lambda>d.
     bind_err (np_dot_vm d (icov m)) (\<lambda>d_icov.
     bind_err (np_sub modelvec (datavec m)) (\<lambda>d'.
     np_dot_vv d_icov d')))"

definition log_likelihood ::
    "fitter \<Rightarrow> integrator \<Rightarrow> rsdmodel \<Rightarrow> real list \<Rightarrow> error + pyfloat" where
  "log_likelihood fit simps m theta =
     bind_err (predicted_multipoles fit simps m theta) (\<lambda>(xi0, xi2).
     let modelvec = (if full_fit m then xi0 @ xi2 else xi2) in
     bind_err (chi2_of m modelvec) (\<lambda>chi2.
     Inr (fscale (real_of_int (- nmocks) / 2)
            (np_log (1 + chi2 / real_of_int (nmocks - 1))))))"

text \<open>Lines 163-173.\<close>

definition log_prior :: "rsdmodel \<Rightarrow> real list \<Rightarrow> error + pyfloat" where
  "log_prior m theta =
     (if model m = 1 \<or> model m = 3 then
        (case theta of
           [fs8, sigma_v, epsilon] \<Rightarrow>
             if (1 / 10 < fs8 \<and> fs8 < 2) \<and> (1 < sigma_v \<and> sigma_v < 500)
                \<and> (8 / 10 < epsilon \<and> epsilon < 12 / 10)
             then Inr (Fin 0) else Inr NegInf
         | _ \<Rightarrow> Inl ValueError)
      else
        (case theta of
           [fs8, epsilon] \<Rightarrow>
             if (1 / 10 < fs8 \<and> fs8 < 2) \<and> (8 / 10 < epsilon \<and> epsilon < 12 / 10)
             then Inr (Fin 0) else Inr NegInf
         | _ \<Rightarrow> Inl ValueError))"

text \<open>
  \<open>log_probability\<close> of mcmc.py, lines 10-14, on the module-level \<open>model\<close>. The second
  component of the result is the trace of the model's methods that were called, in
  order; it is what tells a skipped likelihood from an evaluated one.
\<close>

datatype call = CallLogPrior | CallLogLikelihood

definition log_probability ::
    "fitter \<Rightarrow> integrator \<Rightarrow> rsdmodel \<Rightarrow> real list \<Rightarrow> (error + pyfloat) \<times> call list" where
  "log_probability fit simps m theta =
     (case log_prior m theta of
        Inl e \<Rightarrow> (Inl e, [CallLogPrior])
      | Inr lp \<Rightarrow>
          if \<not> isfinite lp then (Inr NegInf, [CallLogPrior])
          else (case log_likelihood fit simps m theta of
                  Inl e \<Rightarrow> (Inl e, [CallLogPrior, CallLogLikelihood])
                | Inr ll \<Rightarrow> (Inr (fadd lp ll), [CallLogPrior, CallLogLikelihood])))"

subsection \<open>The correlation-function reader\<close>





text \<open>\<open>_getMonopole\<close> and \<open>_getQuadrupole\<close>, lines 404-421: one interpolant per row of the grid.\<close>

definition getMonopole ::
    "fitter \<Rightarrow> integrator \<Rightarrow> real list \<Rightarrow> real list \<Rightarrow> real list list \<Rightarrow>
     error + (real list \<times> real list)" where
  "getMonopole fit simps s mu xi_smu =
     bind_err (collect (map (\<lambda>row.
         bind_err (InterpolatedUnivariateSpline fit mu row 3 Ext0) (\<lambda>mufunc.
         Inr (monopole_of simps mufunc))) xi_smu)) (\<lambda>monopole.
     Inr (s, monopole))"

definition getQuadrupole ::
    "fitter \<Rightarrow> integrator \<Rightarrow> real list \<Rightarrow> real list \<Rightarrow> real list list \<Rightarrow>
     error + (real list \<times> real list)" where
  "getQuadrupole fit simps s mu xi_smu =
     bind_err (collect (map (\<lambda>row.
         bind_err (InterpolatedUnivariateSpline fit mu row 3 Ext0) (\<lambda>mufunc.
         Inr (quadrupole_of simps mufunc))) xi_smu)) (\<lambda>quadrupole.
     Inr (s, quadrupole))"

subsection \<open>Derived notions used in the statements\<close>

text \<open>
  The value \<open>xi_model[j]\<close> that \<open>model2_theory\<close> holds after the body of its inner
  loop ran for \<open>(s[i], mu[j])\<close>: the rescaling step followed by lines 271-281.
\<close>

definition model2_xi_model ::
    "fitter \<Rightarrow> rsdmodel \<Rightarrow> real \<Rightarrow> real \<Rightarrow> real \<Rightarrow> real \<Rightarrow> real \<Rightarrow> error + real" where
  "model2_xi_model fit m fs8 alpha_perp alpha_para si muj =
     bind_err (model2_rescaled fit m alpha_perp alpha_para) (\<lambda>R.
     Inr (snd (model2_point R (fs8 / s8norm m) alpha_perp alpha_para si muj)))"

text \<open>
  The specification's chi-squared: the quadratic form
  \<open>(model - data)\<^sup>T \<cdot> icov \<cdot> (model - data)\<close> written as a double sum over the
  entries of the difference vector \<open>d\<close>.
\<close>

definition mahalanobis :: "real list list \<Rightarrow> real list \<Rightarrow> real" where
  "mahalanobis M d = (\<Sum>i<length d. \<Sum>j<length d. d ! i * M ! i ! j * d ! j)"

text \<open>
  The contract of the spline fit on one set of samples: the fitted curve through the
  profile \<open>prof\<close> sampled at the radii \<open>r\<close> passes through each sample.
\<close>

definition interpolates :: "fitter \<Rightarrow> real list \<Rightarrow> spline \<Rightarrow> bool" where
  "interpolates fit r prof =
     list_all (\<lambda>ri. fit 3 r (map (spline_call prof) r) ri = spline_call prof ri) r"

text \<open>
  Simpson's rule as \<open>scipy.integrate.simps\<close> computes it for samples at the abscissae
  \<open>x\<close> (its default \<open>even='avg'\<close>): with an even number of samples, the mean of
  Simpson on the first intervals plus a trapezoid on the last and of Simpson on the last
  intervals plus a trapezoid on the first. It is the instance of \<open>simps\<close> used on
  concrete inputs.
\<close>

fun basic_simps :: "real list \<Rightarrow> real list \<Rightarrow> real" where
  "basic_simps (y0 # y1 # y2 # ys) (x0 # x1 # x2 # xs) =
     (let h0 = x1 - x0; h1 = x2 - x1; hsum = h0 + h1; hprod = h0 * h1; h0divh1 = h0 / h1
      in hsum / 6 * (y0 * (2 - 1 / h0divh1) + y1 * hsum * hsum / hprod + y2 * (2 - h0divh1)))
     + basic_simps (y2 # ys) (x2 # xs)"
| "basic_simps ys xs = 0"

definition simps_avg :: integrator where
  "simps_avg y x =
     (if even (length x) then
        (let last_dx = last x - last (butlast x);
             first_dx = x ! 1 - x ! 0;
             val = (last_dx * (last y + last (butlast y)) / 2
                    + first_dx * (y ! 1 + y ! 0) / 2) / 2;
             result = (basic_simps y x + basic_simps (tl y) (tl x)) / 2
         in result + val)
      else basic_simps y x)"

text \<open>
  The factor that the rescaling step applies to every radius: the trapezoidal average of
  the stretch over the 100 samples of \<open>mu\<close>, without the factors \<open>r[i]\<close> and
  \<open>alpha_para\<close>.
\<close>

definition mean_stretch :: "real \<Rightarrow> real \<Rightarrow> real" where
  "mean_stretch alpha_perp alpha_para =
     (let mus = linspace 0 1 100 in
      trapz (map (\<lambda>mu. sqrt (1 + (1 - mu ^ 2) * (alpha_perp ^ 2 / alpha_para ^ 2 - 1))) mus) mus)"

subsection \<open>The state of the reader's loops\<close>



subsection \<open>Concrete models and a concrete table\<close>

text \<open>
  Four-sample instances: radii 1, 2, 3, 4, one separation bin and four angle cosines,
  quadrupole-only fit, every profile the same interpolant \<open>prof\<close>, the observed
  quadrupole \<open>dvec\<close>. \<open>line_spline\<close>
  is the straight line through the samples \<open>(r, r)\<close>, held flat beyond the sampled
  range as \<open>ext=3\<close> does; \<open>null_spline\<close> is the profile that vanishes everywhere.
  \<open>line_rescaled\<close> and \<open>null_rescaled\<close> are the interpolants that the evaluators
  rebuild from them at \<open>alpha_perp = alpha_para = 1\<close>.
\<close>

definition line_spline :: spline where
  "line_spline = \<lparr>sp_lo = 1, sp_hi = 4, sp_ext = Ext3, sp_pp = (\<lambda>q. q)\<rparr>"

definition null_spline :: spline where
  "null_spline = \<lparr>sp_lo = 1, sp_hi = 4, sp_ext = Ext3, sp_pp = (\<lambda>q. 0)\<rparr>"

definition example_model :: "int \<Rightarrow> spline \<Rightarrow> real list \<Rightarrow> rsdmodel" where
  "example_model mid prof dvec =
     \<lparr>model = mid, full_fit = False, s8norm = 1 / 2, iaH = 1 / 100, icov = [[2]],
      xi_r = prof, delta_r = prof, Delta_r = prof,
      sv = Some prof, vr = Some prof, dvr = Some prof,
      r_for_delta = [1, 2, 3, 4], s_for_xi = [1], mu_for_xi = [-1, 0, 3 / 5, 1],
      datavec = dvec\<rparr>"

definition line_rescaled :: "extmode \<Rightarrow> spline" where
  "line_rescaled ext =
     \<lparr>sp_lo = 1, sp_hi = 4, sp_ext = ext, sp_pp = cubic_fit 3 [1, 2, 3, 4] [1, 2, 3, 4]\<rparr>"

definition null_rescaled :: "extmode \<Rightarrow> spline" where
  "null_rescaled ext =
     \<lparr>sp_lo = 1, sp_hi = 4, sp_ext = ext, sp_pp = cubic_fit 3 [1, 2, 3, 4] [0, 0, 0, 0]\<rparr>"

text \<open>
  A profile with an interior knot: \<open>knot_spline\<close> is the interpolant that scipy fits
  to the five samples 0, 0, 0, 1, 8 at the radii 1, 2, 3, 4, 5 (with five samples and
  \<open>k=3\<close> the spline has one interior knot, at 3: it vanishes up to 3 and is
  \<open>(q - 3)\<^sup>3\<close> beyond). The fitting window then drops the radius 5, as \<open>__init__\<close> does
  after the interpolants are built, and \<open>knot_rescaled\<close> is the interpolant that the
  evaluators rebuild from it on the radii 1, 2, 3, 4 at \<open>alpha_perp = alpha_para = 1\<close>.
\<close>

definition knot_spline :: spline where
  "knot_spline =
     \<lparr>sp_lo = 1, sp_hi = 5, sp_ext = Ext3, sp_pp = (\<lambda>q. if q \<le> 3 then 0 else (q - 3) ^ 3)\<rparr>"

definition knot_rescaled :: "extmode \<Rightarrow> spline" where
  "knot_rescaled ext =
     \<lparr>sp_lo = 1, sp_hi = 4, sp_ext = ext, sp_pp = cubic_fit 3 [1, 2, 3, 4] [0, 0, 0, 1]\<rparr>"

text \<open>
  The factor by which the rescaling step multiplies every radius at
  \<open>alpha_perp = 2\<close>, \<open>alpha_para = 1/4\<close> (the values that \<open>epsilon = 8\<close> gives).
\<close>

definition example_c :: real where
  "example_c = 1 / 4 * mean_stretch 2 (1 / 4)"


section \<open>Auxiliary facts\<close>

subsection \<open>Trapezoidal sums and the identity rescaling\<close>

lemma trapz_const_Cons:
  "trapz (map (\<lambda>x. c) (x # xs)) (x # xs) = c * (last (x # xs) - x)"
proof (induction xs arbitrary: x)
  case Nil
  then show ?case by simp
next
  case (Cons y ys)
  have "trapz (map (\<lambda>x. c) (x # y # ys)) (x # y # ys)
        = (y - x) * (c + c) / 2 + trapz (map (\<lambda>x. c) (y # ys)) (y # ys)"
    by simp
  also have "\<dots> = (y - x) * c + c * (last (y # ys) - y)"
    using Cons.IH [of y] by simp
  also have "\<dots> = c * (last (x # y # ys) - x)"
    by (simp add: algebra_simps)
  finally show ?case .
qed

lemma trapz_const:
  "xs \<noteq> [] \<Longrightarrow> trapz (map (\<lambda>x. c) xs) xs = c * (last xs - hd xs)"
  using trapz_const_Cons [of c "hd xs" "tl xs"] by simp

lemma linspace_nonempty: "0 < n \<Longrightarrow> linspace a b n \<noteq> []"
  by (simp add: linspace_def)

lemma hd_linspace: "0 < n \<Longrightarrow> hd (linspace a b n) = a"
  by (simp add: linspace_def hd_map upt_conv_Cons)

lemma last_linspace: "1 < n \<Longrightarrow> last (linspace a b n) = b"
  by (simp add: linspace_def last_map field_simps)

lemma rescaled_r_identity: "rescaled_r 1 1 r = r"
proof -
  have "trapz (map (\<lambda>mu. c) (linspace 0 1 100)) (linspace 0 1 100) = c" for c :: real
    by (simp add: trapz_const linspace_nonempty hd_linspace last_linspace)
  then show ?thesis
    by (simp add: rescaled_r_def Let_def map_idI)
qed

subsection \<open>Rebuilt interpolants at the sampled radii\<close>

lemma cubic_fit_line: "cubic_fit 3 [1, 2, 3, 4] [1, 2, 3, 4] q = q"
  by (simp add: cubic_fit_def lagrange_basis_def field_simps)

lemma line_spline_nodes:
  "map (spline_call line_spline) [1, 2, 3, 4] = [1, 2, 3, 4]"
  by (simp add: spline_call_def line_spline_def)

lemma rescaled_spline_line:
  "rescaled_spline cubic_fit ext 1 1 [1, 2, 3, 4] line_spline = Inr (line_rescaled ext)"
  unfolding rescaled_spline_def rescaled_r_identity line_spline_nodes
  by (simp add: InterpolatedUnivariateSpline_def line_rescaled_def)

lemma sorted_hd_le: "sorted xs \<Longrightarrow> x \<in> set xs \<Longrightarrow> hd xs \<le> (x::real)"
  by (cases xs) auto

lemma sorted_le_last: "sorted xs \<Longrightarrow> x \<in> set xs \<Longrightarrow> (x::real) \<le> last xs"
  by (induction xs) (auto split: if_splits)

lemma spline_call_inside:
  "sp_lo sp \<le> q \<Longrightarrow> q \<le> sp_hi sp \<Longrightarrow> spline_call sp q = sp_pp sp q"
  by (cases "sp_ext sp") (simp_all add: spline_call_def)

lemma rescaled_spline_identity:
  assumes "sorted_wrt (<) r" and "3 < length r" and "interpolates fit r prof"
  shows "\<exists>sp. rescaled_spline fit ext 1 1 r prof = Inr sp
              \<and> (\<forall>ri\<in>set r. spline_call sp ri = spline_call prof ri)"
proof -
  let ?sp = "\<lparr>sp_lo = hd r, sp_hi = last r, sp_ext = ext,
              sp_pp = fit 3 r (map (spline_call prof) r)\<rparr>"
  have built: "rescaled_spline fit ext 1 1 r prof = Inr ?sp"
    using assms(1,2)
    by (simp add: rescaled_spline_def rescaled_r_identity InterpolatedUnivariateSpline_def)
  have srt: "sorted r"
    using assms(1) by (rule strict_sorted_imp_sorted)
  have "spline_call ?sp ri = spline_call prof ri" if "ri \<in> set r" for ri
  proof -
    have "spline_call ?sp ri = fit 3 r (map (spline_call prof) r) ri"
      using sorted_hd_le [OF srt that] sorted_le_last [OF srt that]
      by (simp add: spline_call_inside)
    also have "\<dots> = spline_call prof ri"
      using assms(3) that by (simp add: interpolates_def list_all_iff)
    finally show ?thesis .
  qed
  with built show ?thesis by blast
qed

subsection \<open>Sorting and the multipole reduction\<close>

lemma argsort_sorted: "sorted_wrt (<) a \<Longrightarrow> argsort a = [0..<length a]"
proof -
  assume "sorted_wrt (<) a"
  then have "sorted (map fst (zip a [0..<length a]))"
    by (simp add: strict_sorted_imp_sorted)
  then have "sort_key fst (zip a [0..<length a]) = zip a [0..<length a]"
    by (rule sort_key_id_if_sorted)
  then show ?thesis
    by (simp add: argsort_def)
qed

lemma take_idx_all: "length b = n \<Longrightarrow> take_idx b [0..<n] = b"
  by (auto simp: take_idx_def intro: nth_equalityI)

lemma theory_multipoles_sorted:
  assumes "sorted_wrt (<) mu" and "length row = length mu"
  shows "theory_multipoles fit simps mu row = theory3_multipoles fit simps mu row"
  using assms by (simp add: theory_multipoles_def theory3_multipoles_def argsort_sorted take_idx_all)

lemma collect_map_fst:
  "bind_err (collect (map (\<lambda>row. bind_err (f row) (\<lambda>v. Inr (g v, h v))) rows))
            (\<lambda>res. Inr (s, map fst res))
   = bind_err (collect (map (\<lambda>row. bind_err (f row) (\<lambda>v. Inr (g v))) rows))
            (\<lambda>res. Inr (s, res))"
  by (induction rows) (auto simp: bind_err_def split: sum.splits)

lemma collect_map_snd:
  "bind_err (collect (map (\<lambda>row. bind_err (f row) (\<lambda>v. Inr (g v, h v))) rows))
            (\<lambda>res. Inr (s, map snd res))
   = bind_err (collect (map (\<lambda>row. bind_err (f row) (\<lambda>v. Inr (h v))) rows))
            (\<lambda>res. Inr (s, res))"
  by (induction rows) (auto simp: bind_err_def split: sum.splits)

lemma getMonopole_theory3:
  "getMonopole fit simps s mu xi_smu =
     bind_err (collect (map (theory3_multipoles fit simps mu) xi_smu))
       (\<lambda>res. Inr (s, map fst res))"
  unfolding getMonopole_def theory3_multipoles_def by (rule collect_map_fst [symmetric])

lemma getQuadrupole_theory3:
  "getQuadrupole fit simps s mu xi_smu =
     bind_err (collect (map (theory3_multipoles fit simps mu) xi_smu))
       (\<lambda>res. Inr (s, map snd res))"
  unfolding getQuadrupole_def theory3_multipoles_def by (rule collect_map_snd [symmetric])

lemma map_theory_multipoles_sorted:
  assumes "sorted_wrt (<) mu" and "\<forall>row\<in>set xi_smu. length row = length mu"
  shows "map (theory_multipoles fit simps mu) xi_smu
         = map (theory3_multipoles fit simps mu) xi_smu"
  using assms by (simp add: theory_multipoles_sorted)

subsection \<open>The loops of the reader\<close>






lemma example_model_id [simp]: "model (example_model mid prof dvec) = mid"
  by (simp add: example_model_def)



subsection \<open>The four-sample model without distortion\<close>

lemma model1_rescaled_line:
  "model1_rescaled cubic_fit (example_model mid line_spline dvec) 1 1 =
     Inr (line_rescaled Ext0, line_rescaled Ext3, line_rescaled Ext3, line_rescaled Ext3)"
  by (simp add: model1_rescaled_def example_model_def rescaled_spline_line bind_err_def)

lemma model2_rescaled_line:
  "model2_rescaled cubic_fit (example_model mid line_spline dvec) 1 1 =
     Inr (line_rescaled Ext0, line_rescaled Ext3, line_rescaled Ext3)"
  by (simp add: model2_rescaled_def example_model_def rescaled_spline_line bind_err_def)

lemma model3_rescaled_line:
  "model3_rescaled cubic_fit (example_model mid line_spline dvec) 1 1 =
     Inr (line_rescaled Ext0, line_rescaled Ext3, line_rescaled Ext3,
          line_rescaled Ext3, line_rescaled Ext3, line_rescaled Ext3)"
  by (simp add: model3_rescaled_def example_model_def rescaled_spline_line bind_err_def)

lemma rescaled_ok:
  assumes "sorted_wrt (<) r" and "3 < length r" and "interpolates fit r prof"
  obtains sp where "rescaled_spline fit ext 1 1 r prof = Inr sp"
    and "\<forall>ri\<in>set r. spline_call sp ri = spline_call prof ri"
  using rescaled_spline_identity [OF assms] by blast

lemma interpolates_line: "interpolates cubic_fit [1, 2, 3, 4] line_spline"
  unfolding interpolates_def line_spline_nodes
  by (simp add: cubic_fit_line spline_call_def line_spline_def)

subsection \<open>The rescaling factor under distortion\<close>

lemma trapz_cmult_Cons:
  "trapz (map (\<lambda>x. a * f x) (x # xs)) (x # xs) = a * trapz (map f (x # xs)) (x # xs)"
proof (induction xs arbitrary: x)
  case Nil
  then show ?case by simp
next
  case (Cons y ys)
  show ?case
    using Cons.IH [of y] by (simp add: algebra_simps)
qed

lemma trapz_cmult:
  "trapz (map (\<lambda>x. a * f x) xs) xs = a * trapz (map f xs) xs"
proof (cases xs)
  case Nil
  then show ?thesis by simp
next
  case (Cons y ys)
  then show ?thesis using trapz_cmult_Cons [of a f y ys] by simp
qed

lemma trapz_pos_Cons:
  assumes "sorted_wrt (<) (x # y # ys)" and "\<forall>z\<in>set (x # y # ys). 0 < f z"
  shows "0 < trapz (map f (x # y # ys)) (x # y # ys)"
  using assms
proof (induction ys arbitrary: x y)
  case Nil
  then show ?case by (simp add: add_pos_pos)
next
  case (Cons z zs)
  have rest: "0 < trapz (map f (y # z # zs)) (y # z # zs)"
    using Cons.IH [of y z] Cons.prems by simp
  have first: "0 < (y - x) * (f y + f x) / 2"
    using Cons.prems by (simp add: add_pos_pos)
  have "trapz (map f (x # y # z # zs)) (x # y # z # zs)
        = (y - x) * (f y + f x) / 2 + trapz (map f (y # z # zs)) (y # z # zs)"
    by simp
  with rest first show ?case by linarith
qed

lemma trapz_pos:
  assumes "sorted_wrt (<) xs" and "1 < length xs" and "\<forall>z\<in>set xs. 0 < f z"
  shows "0 < trapz (map f xs) xs"
proof -
  obtain x y ys where "xs = x # y # ys"
    using assms(2) by (cases xs; cases "tl xs") auto
  then show ?thesis
    using trapz_pos_Cons [of x y ys f] assms(1,3) by simp
qed

lemma length_linspace: "length (linspace a b n) = n"
  by (simp add: linspace_def)

lemma affine_strict:
  "0 < (d::real) \<Longrightarrow> sorted_wrt (<) (map (\<lambda>i. a + real i * d) [0..<n])"
  by (simp add: sorted_wrt_iff_nth_less)

lemma linspace_strict:
  assumes "a < b" and "1 < n"
  shows "sorted_wrt (<) (linspace a b n)"
proof -
  have "0 < (b - a) / real (n - 1)"
    using assms by simp
  then show ?thesis
    unfolding linspace_def by (rule affine_strict)
qed

lemma linspace_unit: "1 < n \<Longrightarrow> x \<in> set (linspace 0 1 n) \<Longrightarrow> 0 \<le> x \<and> x \<le> 1"
  by (auto simp: linspace_def field_simps)

lemma rescaled_r_scale:
  "rescaled_r alpha_perp alpha_para r =
     map (\<lambda>ri. ri * alpha_para * mean_stretch alpha_perp alpha_para) r"
  by (simp add: rescaled_r_def mean_stretch_def Let_def trapz_cmult)

lemma mean_stretch_example_pos: "0 < mean_stretch 2 (1 / 4)"
proof -
  let ?mus = "linspace 0 1 100"
  let ?f = "\<lambda>mu::real. sqrt (1 + (1 - mu ^ 2) * (2 ^ 2 / (1 / 4) ^ 2 - 1))"
  have pos: "\<forall>z\<in>set ?mus. 0 < ?f z"
  proof
    fix z assume "z \<in> set ?mus"
    then have "0 \<le> z \<and> z \<le> 1"
      by (intro linspace_unit) simp_all
    then have "z ^ 2 \<le> 1"
      by (simp add: power_le_one)
    moreover have "(2::real) ^ 2 / (1 / 4) ^ 2 - 1 = 63"
      by (simp add: power2_eq_square)
    ultimately have "0 \<le> (1 - z ^ 2) * (2 ^ 2 / (1 / 4) ^ 2 - 1)"
      by simp
    then show "0 < ?f z"
      by (simp add: add_pos_nonneg)
  qed
  have srt: "sorted_wrt (<) ?mus"
    by (rule linspace_strict) simp_all
  have "0 < trapz (map ?f ?mus) ?mus"
    by (rule trapz_pos) (use srt pos in \<open>simp_all add: length_linspace\<close>)
  then show ?thesis
    by (simp add: mean_stretch_def Let_def)
qed

lemma cubic_fit_scaled_line:
  assumes "c \<noteq> 0"
  shows "cubic_fit 3 [c, 2 * c, 3 * c, 4 * c] [1, 2, 3, 4] q = q / c"
  using assms by (simp add: cubic_fit_def lagrange_basis_def field_simps)

subsection \<open>The linear model at vanishing growth\<close>

lemma model2_point_no_growth:
  "snd (model2_point (rx, rd, rD) 0 alpha_perp alpha_para s mu) =
     spline_call rx (sqrt ((s * mu * alpha_para) ^ 2 + (s * sqrt (1 - mu ^ 2) * alpha_perp) ^ 2))"
  by (simp add: model2_point_def Let_def)

lemma true_s_identity:
  assumes "0 \<le> s" and "- 1 \<le> mu" and "mu \<le> 1"
  shows "sqrt ((s * mu * 1) ^ 2 + (s * sqrt (1 - mu ^ 2) * 1) ^ 2) = s"
proof -
  have "\<bar>mu\<bar> \<le> 1"
    using assms(2,3) by simp
  then have "mu ^ 2 \<le> 1"
    by (simp add: abs_square_le_1)
  then have root: "(sqrt (1 - mu ^ 2)) ^ 2 = 1 - mu ^ 2"
    by simp
  have "(s * mu * 1) ^ 2 + (s * sqrt (1 - mu ^ 2) * 1) ^ 2
        = s ^ 2 * mu ^ 2 + s ^ 2 * (sqrt (1 - mu ^ 2)) ^ 2"
    by (simp add: power_mult_distrib)
  also have "\<dots> = s ^ 2 * mu ^ 2 + s ^ 2 * (1 - mu ^ 2)"
    by (simp only: root)
  also have "\<dots> = s ^ 2"
    by (simp add: algebra_simps)
  finally have "(s * mu * 1) ^ 2 + (s * sqrt (1 - mu ^ 2) * 1) ^ 2 = s ^ 2" .
  then show ?thesis
    using assms(1) by simp
qed

lemma example_c_pos: "0 < example_c"
  using mean_stretch_example_pos by (simp add: example_c_def)

lemma rescaled_r_example:
  "rescaled_r 2 (1 / 4) [1, 2, 3, 4] = [example_c, 2 * example_c, 3 * example_c, 4 * example_c]"
  by (simp add: rescaled_r_scale example_c_def)

lemma model2_rescaled_distorted:
  "\<exists>rd rD. model2_rescaled cubic_fit (example_model 2 line_spline dvec) 2 (1 / 4) =
     Inr (\<lparr>sp_lo = example_c, sp_hi = 4 * example_c, sp_ext = Ext0,
           sp_pp = cubic_fit 3 [example_c, 2 * example_c, 3 * example_c, 4 * example_c]
                     [1, 2, 3, 4]\<rparr>, rd, rD)"
  using example_c_pos
  unfolding model2_rescaled_def rescaled_spline_def
  by (simp add: example_model_def rescaled_r_example spline_call_def line_spline_def
        InterpolatedUnivariateSpline_def bind_err_def Let_def)

lemma model2_xi_model_distorted:
  assumes "0 \<le> q"
      and "q = sqrt ((s * mu * (1 / 4)) ^ 2 + (s * sqrt (1 - mu ^ 2) * 2) ^ 2)"
  shows "model2_xi_model cubic_fit (example_model 2 line_spline dvec) 0 2 (1 / 4) s mu
         = Inr (q / example_c)"
proof -
  obtain rd rD where R: "model2_rescaled cubic_fit (example_model 2 line_spline dvec) 2 (1 / 4) =
     Inr (\<lparr>sp_lo = example_c, sp_hi = 4 * example_c, sp_ext = Ext0,
           sp_pp = cubic_fit 3 [example_c, 2 * example_c, 3 * example_c, 4 * example_c]
                     [1, 2, 3, 4]\<rparr>, rd, rD)"
    using model2_rescaled_distorted by blast
  have c: "example_c \<noteq> 0"
    using example_c_pos by simp
  have fit: "cubic_fit 3 [example_c, 2 * example_c, 3 * example_c, 4 * example_c]
               [1, 2, 3, 4] q = q / example_c"
    using cubic_fit_scaled_line [OF c, of q] by simp
  have "snd (model2_point
               (\<lparr>sp_lo = example_c, sp_hi = 4 * example_c, sp_ext = Ext0,
                  sp_pp = cubic_fit 3 [example_c, 2 * example_c, 3 * example_c, 4 * example_c]
                            [1, 2, 3, 4]\<rparr>, rd, rD) 0 2 (1 / 4) s mu)
        = q / example_c"
    unfolding model2_point_no_growth assms(2) [symmetric]
    by (simp add: spline_call_def fit)
  then show ?thesis
    unfolding model2_xi_model_def R by (simp add: bind_err_def)
qed

lemma IUS_Inr_iff:
  "InterpolatedUnivariateSpline fit x y k ext = Inr sp \<longleftrightarrow>
     length x = length y \<and> sorted_wrt (<) x \<and> k < length x
     \<and> sp = \<lparr>sp_lo = hd x, sp_hi = last x, sp_ext = ext, sp_pp = fit k x y\<rparr>"
  by (auto simp: InterpolatedUnivariateSpline_def)

lemma model2_rescaled_Inr:
  assumes "model2_rescaled fit m alpha_perp alpha_para = Inr (rx, rd, rD)"
  shows "rescaled_spline fit Ext0 alpha_perp alpha_para (r_for_delta m) (xi_r m) = Inr rx"
  using assms
  by (auto simp: model2_rescaled_def bind_err_def Let_def split: sum.splits)

subsection \<open>The chi-squared as a quadratic form\<close>

lemma np_sub_same: "length a = length b \<Longrightarrow> np_sub a b = Inr (map2 (-) a b)"
  by (simp add: np_sub_def)

lemma sum_list_map2_nth:
  "length xs = length ys \<Longrightarrow>
   sum_list (map2 f xs ys) = (\<Sum>i<length xs. f (xs ! i) (ys ! i))"
proof -
  assume len: "length xs = length ys"
  have "sum_list (map2 f xs ys) = (\<Sum>i = 0..<length (map2 f xs ys). map2 f xs ys ! i)"
    by (rule sum_list_sum_nth)
  also have "\<dots> = (\<Sum>i = 0..<length xs. f (xs ! i) (ys ! i))"
    using len by (intro sum.cong) simp_all
  finally show ?thesis
    by (simp add: atLeast0LessThan)
qed

lemma np_dot_vm_square:
  assumes "length d = n" and "length M = n" and "\<forall>row\<in>set M. length row = n"
  shows "np_dot_vm d M = Inr (map (\<lambda>j. \<Sum>i<n. d ! i * M ! i ! j) [0..<n])"
proof -
  have cols: "(case M of [] \<Rightarrow> 0 | row # _ \<Rightarrow> length row) = n"
    using assms(2,3) by (cases M) auto
  have "sum_list (map2 (\<lambda>vi row. vi * row ! j) d M) = (\<Sum>i<n. d ! i * M ! i ! j)" for j
    using sum_list_map2_nth [of d M "\<lambda>vi row. vi * row ! j"] assms(1,2) by simp
  then show ?thesis
    using assms(1,2) by (simp add: np_dot_vm_def cols)
qed

lemma chi2_of_mahalanobis:
  assumes "length modelvec = length (datavec m)"
      and "length (icov m) = length (datavec m)"
      and "\<forall>row\<in>set (icov m). length row = length (datavec m)"
  shows "chi2_of m modelvec = Inr (mahalanobis (icov m) (map2 (-) modelvec (datavec m)))"
proof -
  let ?d = "map2 (-) modelvec (datavec m)"
  let ?n = "length (datavec m)"
  have dl: "length ?d = ?n"
    using assms(1) by simp
  have vm: "np_dot_vm ?d (icov m) = Inr (map (\<lambda>j. \<Sum>i<?n. ?d ! i * icov m ! i ! j) [0..<?n])"
    by (rule np_dot_vm_square) (use dl assms in simp_all)
  have "sum_list (map2 (*) (map (\<lambda>j. \<Sum>i<?n. ?d ! i * icov m ! i ! j) [0..<?n]) ?d)
        = (\<Sum>j<?n. (\<Sum>i<?n. ?d ! i * icov m ! i ! j) * ?d ! j)"
    using sum_list_map2_nth [of "map (\<lambda>j. \<Sum>i<?n. ?d ! i * icov m ! i ! j) [0..<?n]" ?d "(*)"] dl
    by simp
  also have "\<dots> = (\<Sum>j<?n. \<Sum>i<?n. ?d ! i * icov m ! i ! j * ?d ! j)"
    by (simp add: sum_distrib_right)
  also have "\<dots> = (\<Sum>i<?n. \<Sum>j<?n. ?d ! i * icov m ! i ! j * ?d ! j)"
    by (rule sum.swap)
  finally have vv: "np_dot_vv (map (\<lambda>j. \<Sum>i<?n. ?d ! i * icov m ! i ! j) [0..<?n]) ?d
        = Inr (mahalanobis (icov m) ?d)"
    using dl by (simp add: np_dot_vv_def mahalanobis_def)
  show ?thesis
    unfolding chi2_of_def np_sub_same [OF assms(1)] by (simp add: bind_err_def vm vv)
qed

lemma mahalanobis_zero:
  assumes "\<forall>x\<in>set d. x = 0"
  shows "mahalanobis M d = 0"
proof -
  have "d ! i = 0" if "i < length d" for i
    using assms that by (simp add: all_set_conv_all_nth)
  then show ?thesis
    by (simp add: mahalanobis_def)
qed

subsection \<open>The model with vanishing profiles\<close>

lemma sum_list_map2_zero:
  "\<forall>y\<in>set ys. y = 0 \<Longrightarrow> sum_list (map2 (\<lambda>x y. y * g x) xs ys) = (0::real)"
proof (induction xs arbitrary: ys)
  case Nil
  then show ?case by simp
next
  case (Cons x xs)
  then show ?case by (cases ys) simp_all
qed

lemma cubic_fit_null: "\<forall>y\<in>set ys. y = 0 \<Longrightarrow> cubic_fit k xs ys q = 0"
  unfolding cubic_fit_def by (rule sum_list_map2_zero)

lemma spline_call_null_rescaled: "spline_call (null_rescaled ext) q = 0"
  by (cases ext) (simp_all add: spline_call_def null_rescaled_def cubic_fit_null)

lemma rescaled_spline_null:
  "rescaled_spline cubic_fit ext 1 1 [1, 2, 3, 4] null_spline = Inr (null_rescaled ext)"
  unfolding rescaled_spline_def rescaled_r_identity
  by (simp add: InterpolatedUnivariateSpline_def null_rescaled_def spline_call_def null_spline_def)

lemma model2_rescaled_null:
  "model2_rescaled cubic_fit (example_model mid null_spline dvec) 1 1 =
     Inr (null_rescaled Ext0, null_rescaled Ext3, null_rescaled Ext3)"
  by (simp add: model2_rescaled_def example_model_def rescaled_spline_null bind_err_def)

lemma model2_point_null:
  assumes "- 1 \<le> mu" and "mu \<le> 1"
  shows "model2_point (null_rescaled Ext0, null_rescaled Ext3, null_rescaled Ext3) f 1 1 1 mu
         = (mu, 0)"
proof -
  have "sqrt ((1 * mu * 1) ^ 2 + (1 * sqrt (1 - mu ^ 2) * 1) ^ 2) = 1"
    using true_s_identity [of 1 mu] assms by simp
  then show ?thesis
    by (simp add: model2_point_def Let_def spline_call_null_rescaled)
qed

lemma basic_simps_zero: "\<forall>y\<in>set ys. y = 0 \<Longrightarrow> basic_simps ys xs = 0"
  by (induction ys xs rule: basic_simps.induct) simp_all

lemma simps_avg_zero_list:
  assumes z: "\<forall>y\<in>set ys. y = 0" and len: "1 < length ys"
  shows "simps_avg ys xs = 0"
proof -
  have z': "\<forall>y\<in>set (tl ys). y = 0"
    using z by (cases ys) simp_all
  have b1: "basic_simps ys xs = 0" by (rule basic_simps_zero [OF z])
  have b2: "basic_simps (tl ys) (tl xs) = 0" by (rule basic_simps_zero [OF z'])
  have ne: "ys \<noteq> []" "butlast ys \<noteq> []"
    using len by (cases ys; cases "tl ys"; auto)+
  have "last ys \<in> set ys"
    using ne(1) by (rule last_in_set)
  moreover have "last (butlast ys) \<in> set ys"
    using last_in_set [OF ne(2)] by (rule in_set_butlastD)
  moreover have "ys ! 1 \<in> set ys" "ys ! 0 \<in> set ys"
    using len by (auto intro: nth_mem)
  ultimately have l: "last ys = 0" "last (butlast ys) = 0" "ys ! 1 = 0" "ys ! 0 = 0"
    using z by blast+
  show ?thesis
    unfolding simps_avg_def Let_def using b1 b2 l
    by (simp del: basic_simps.simps)
qed

lemma simps_avg_zero:
  "1 < length xs \<Longrightarrow> simps_avg (map (\<lambda>x. 0) xs) xs = 0"
  by (rule simps_avg_zero_list) simp_all

lemma multipoles_null:
  "theory_multipoles cubic_fit simps_avg [- 1, 0, 3 / 5, 1] [0, 0, 0, 0] = Inr (0, 0)"
proof -
  have srt: "sorted_wrt (<) [- 1, 0, 3 / 5, 1 :: real]" by simp
  have call: "spline_call \<lparr>sp_lo = - 1, sp_hi = 1, sp_ext = Ext0,
                  sp_pp = cubic_fit 3 [- 1, 0, 3 / 5, 1] [0, 0, 0, 0]\<rparr> x = 0" for x
    by (simp add: spline_call_def cubic_fit_null)
  have "theory_multipoles cubic_fit simps_avg [- 1, 0, 3 / 5, 1] [0, 0, 0, 0]
        = theory3_multipoles cubic_fit simps_avg [- 1, 0, 3 / 5, 1] [0, 0, 0, 0]"
    by (rule theory_multipoles_sorted [OF srt]) simp
  also have "\<dots> = Inr (0, 0)"
    by (simp add: theory3_multipoles_def InterpolatedUnivariateSpline_def bind_err_def
          monopole_of_def quadrupole_of_def Let_def call simps_avg_zero length_linspace)
  finally show ?thesis .
qed

lemma predicted_null:
  "predicted_multipoles cubic_fit simps_avg (example_model 2 null_spline dvec) [1 / 2, 1]
   = Inr ([0], [0])"
proof -
  let ?m = "example_model 2 null_spline dvec"
  let ?R = "(null_rescaled Ext0, null_rescaled Ext3, null_rescaled Ext3)"
  have pts: "map (model2_point ?R f 1 1 1) [- 1, 0, 3 / 5, 1]
             = [(- 1, 0), (0, 0), (3 / 5, 0), (1, 0)]" for f
    by (simp add: model2_point_null)
  have "model2_theory cubic_fit simps_avg ?m (1 / 2) 1 1 [1] [- 1, 0, 3 / 5, 1] = Inr ([0], [0])"
    unfolding model2_theory_def model2_rescaled_null
    by (simp add: bind_err_def Let_def model2_point_null multipoles_null)
  then show ?thesis
    by (simp add: predicted_multipoles_def unpack_theta_def bind_err_def example_model_def)
qed

lemma log_likelihood_null:
  "log_likelihood cubic_fit simps_avg (example_model 2 null_spline [0]) [1 / 2, 1] = Inr (Fin 0)"
  unfolding log_likelihood_def predicted_null
  by (simp add: example_model_def chi2_of_def np_sub_def np_dot_vm_def np_dot_vv_def
        bind_err_def np_log_def nmocks_def)

subsection \<open>The windowed profile with an interior knot\<close>

lemma knot_spline_nodes: "map (spline_call knot_spline) [1, 2, 3, 4] = [0, 0, 0, 1]"
  by (simp add: spline_call_def knot_spline_def)

lemma rescaled_spline_knot:
  "rescaled_spline cubic_fit ext 1 1 [1, 2, 3, 4] knot_spline = Inr (knot_rescaled ext)"
  unfolding rescaled_spline_def rescaled_r_identity knot_spline_nodes
  by (simp add: InterpolatedUnivariateSpline_def knot_rescaled_def)

lemma cubic_fit_knot: "cubic_fit 3 [1, 2, 3, 4] [0, 0, 0, 1] (5 / 2) = - 1 / 16"
  by (simp add: cubic_fit_def lagrange_basis_def)

lemma interpolates_knot: "interpolates cubic_fit [1, 2, 3, 4] knot_spline"
  unfolding interpolates_def knot_spline_nodes
  by (simp add: cubic_fit_def lagrange_basis_def spline_call_def knot_spline_def)

section \<open>The claims\<close>

text \<open>
  C1 (the code departs from the claim). The claim has model id 3 evaluated by
  \<open>model3_theory\<close>. In \<open>log_likelihood\<close> the branch for the ids 1 and 3 names
  \<open>model1_theory\<close>, and with id 3 that call is never reached: the unpacking expects
  two values, so a three-value \<open>theta\<close> raises \<open>ValueError\<close>, and a two-value
  \<open>theta\<close> leaves \<open>sigma_v\<close> unbound, which raises \<open>UnboundLocalError\<close> when the
  arguments of the call are evaluated. For every \<open>theta\<close> the result is one of these
  two exceptions, and no evaluator runs.
\<close>

theorem log_likelihood_model3_raises:
  "model m = 3 \<Longrightarrow>
   log_likelihood fit simps m theta =
     (case theta of [fs8, epsilon] \<Rightarrow> Inl UnboundLocalError | _ \<Rightarrow> Inl ValueError)"
  by (simp add: log_likelihood_def predicted_multipoles_def unpack_theta_def bind_err_def
           split: list.splits)

theorem log_likelihood_model3_raises_witness:
  "model (example_model 3 line_spline [0]) = 3
   \<and> log_likelihood cubic_fit simps_avg (example_model 3 line_spline [0]) [1 / 2, 300, 1] = Inl ValueError
   \<and> log_likelihood cubic_fit simps_avg (example_model 3 line_spline [0]) [1 / 2, 1] = Inl UnboundLocalError"
  using log_likelihood_model3_raises [of "example_model 3 line_spline [0]" cubic_fit simps_avg "[1 / 2, 300, 1]"]
        log_likelihood_model3_raises [of "example_model 3 line_spline [0]" cubic_fit simps_avg "[1 / 2, 1]"]
  by simp

text \<open>
  C2 (the code departs from the claim). The claim has \<open>log_likelihood\<close> unpack a
  three-value \<open>theta\<close> for model id 3. \<open>log_prior\<close> does unpack three values for the
  ids 1 and 3; \<open>log_likelihood\<close> does so for id 1 only, and raises \<open>ValueError\<close>
  on the same \<open>theta\<close> that the prior accepted.
\<close>

theorem model3_three_parameters_rejected:
  "model m = 3 \<Longrightarrow>
   log_prior m [fs8, sigma_v, epsilon] \<noteq> Inl ValueError
   \<and> log_likelihood fit simps m [fs8, sigma_v, epsilon] = Inl ValueError"
  by (simp add: log_prior_def log_likelihood_def predicted_multipoles_def unpack_theta_def
        bind_err_def)

theorem model3_three_parameters_rejected_witness:
  "model (example_model 3 line_spline [0]) = 3
   \<and> log_prior (example_model 3 line_spline [0]) [1 / 2, 300, 1] \<noteq> Inl ValueError
   \<and> log_likelihood cubic_fit simps_avg (example_model 3 line_spline [0]) [1 / 2, 300, 1] = Inl ValueError"
  using model3_three_parameters_rejected [of "example_model 3 line_spline [0]" "1 / 2" 300 1 cubic_fit simps_avg]
  by simp

text \<open>
  C3. Whenever the evaluator returned the multipoles \<open>xi0\<close> and \<open>xi2\<close>, with
  \<open>modelvec\<close> the two concatenated under the full-fit flag and \<open>xi2\<close> alone
  otherwise, of the length of the data vector, and \<open>icov\<close> square of that size:
  \<open>log_likelihood\<close> returns \<open>-(nmocks/2) \<cdot> log(1 + chi2/(nmocks - 1))\<close> where
  \<open>chi2\<close> is the quadratic form of \<open>modelvec - datavec\<close> in \<open>icov\<close> (the two
  \<open>np.dot\<close> calls compute that double sum); when the argument of the logarithm is
  positive this is the finite number the formula gives; and when \<open>modelvec\<close> equals
  \<open>datavec\<close> then \<open>chi2 = 0\<close> and the result is 0, whatever the entries of
  \<open>icov\<close>.
\<close>

theorem log_likelihood_sellentin_heavens:
  assumes pred: "predicted_multipoles fit simps m theta = Inr (xi0, xi2)"
      and mv: "modelvec = (if full_fit m then xi0 @ xi2 else xi2)"
      and len: "length modelvec = length (datavec m)"
      and rows: "length (icov m) = length (datavec m)"
      and cols: "\<forall>row\<in>set (icov m). length row = length (datavec m)"
      and chi2: "chi2 = mahalanobis (icov m) (map2 (-) modelvec (datavec m))"
  shows "log_likelihood fit simps m theta =
           Inr (fscale (- (real_of_int nmocks / 2)) (np_log (1 + chi2 / (real_of_int nmocks - 1))))
       \<and> (0 < 1 + chi2 / (real_of_int nmocks - 1) \<longrightarrow>
            log_likelihood fit simps m theta =
              Inr (Fin (- (real_of_int nmocks / 2) * ln (1 + chi2 / (real_of_int nmocks - 1)))))
       \<and> (modelvec = datavec m \<longrightarrow>
            chi2 = 0 \<and> log_likelihood fit simps m theta = Inr (Fin 0))"
proof -
  have c: "chi2_of m modelvec = Inr chi2"
    unfolding chi2 by (rule chi2_of_mahalanobis [OF len rows cols])
  have main: "log_likelihood fit simps m theta =
           Inr (fscale (- (real_of_int nmocks / 2)) (np_log (1 + chi2 / (real_of_int nmocks - 1))))"
    unfolding log_likelihood_def pred
    using c mv by (simp add: bind_err_def)
  have zero: "chi2 = 0" if "modelvec = datavec m"
    unfolding chi2 using that by (intro mahalanobis_zero) (auto simp: set_zip)
  show ?thesis
    using main zero by (auto simp: np_log_def nmocks_def)
qed

theorem log_likelihood_sellentin_heavens_witness:
  "log_likelihood cubic_fit simps_avg (example_model 2 null_spline [0]) [1 / 2, 1] = Inr (Fin 0)
   \<and> log_likelihood cubic_fit simps_avg (example_model 2 null_spline [1]) [1 / 2, 1]
       = Inr (Fin (- 150 * ln (1 + 2 / 299)))"
proof -
  let ?m = "\<lambda>dvec. example_model 2 null_spline dvec"
  have mv: "[0] = (if full_fit (?m dvec) then [0] @ [0] else [0::real])" for dvec
    by (simp add: example_model_def)
  have rows: "length (icov (?m [d])) = length (datavec (?m [d]))" for d
    by (simp add: example_model_def)
  have cols: "\<forall>row\<in>set (icov (?m [d])). length row = length (datavec (?m [d]))" for d
    by (simp add: example_model_def)
  have len: "length [0::real] = length (datavec (?m [d]))" for d
    by (simp add: example_model_def)
  have same: "[0] = datavec (?m [0])"
    by (simp add: example_model_def)
  have first: "log_likelihood cubic_fit simps_avg (?m [0]) [1 / 2, 1] = Inr (Fin 0)"
    using log_likelihood_sellentin_heavens [OF predicted_null mv len rows cols refl] same
    by blast
  have chi2: "mahalanobis (icov (?m [1])) (map2 (-) [0] (datavec (?m [1]))) = 2"
    by (simp add: mahalanobis_def example_model_def)
  have pos: "0 < 1 + (2::real) / (real_of_int nmocks - 1)"
    by (simp add: nmocks_def)
  have "log_likelihood cubic_fit simps_avg (?m [1]) [1 / 2, 1]
        = Inr (Fin (- (real_of_int nmocks / 2) * ln (1 + 2 / (real_of_int nmocks - 1))))"
    using log_likelihood_sellentin_heavens [OF predicted_null mv len rows cols chi2 [symmetric]] pos
    by blast
  then have second: "log_likelihood cubic_fit simps_avg (?m [1]) [1 / 2, 1]
        = Inr (Fin (- 150 * ln (1 + 2 / 299)))"
    by (simp add: nmocks_def)
  from first second show ?thesis by simp
qed

text \<open>
  C4. For the model ids 1 and 3 and a three-value \<open>theta\<close>, and for every other id and
  a two-value \<open>theta\<close>, \<open>log_prior\<close> returns 0.0 exactly when every parameter lies
  strictly inside its bounds, and negative infinity otherwise (so at each bound too).
\<close>

theorem log_prior_flat_bounds:
  "(model m = 1 \<or> model m = 3 \<longrightarrow>
      log_prior m [fs8, sigma_v, epsilon] =
        Inr (if (1 / 10 < fs8 \<and> fs8 < 2) \<and> (1 < sigma_v \<and> sigma_v < 500)
                \<and> (8 / 10 < epsilon \<and> epsilon < 12 / 10)
             then Fin 0 else NegInf))
   \<and> (model m \<noteq> 1 \<and> model m \<noteq> 3 \<longrightarrow>
      log_prior m [fs8, epsilon] =
        Inr (if (1 / 10 < fs8 \<and> fs8 < 2) \<and> (8 / 10 < epsilon \<and> epsilon < 12 / 10)
             then Fin 0 else NegInf))"
  by (simp add: log_prior_def)

theorem log_prior_flat_bounds_witness:
  "log_prior (example_model 3 line_spline [0]) [1 / 10, 300, 1] = Inr NegInf
   \<and> log_prior (example_model 3 line_spline [0]) [11 / 100, 300, 1] = Inr (Fin 0)
   \<and> log_prior (example_model 1 line_spline [0]) [1 / 2, 500, 1] = Inr NegInf
   \<and> log_prior (example_model 2 line_spline [0]) [1 / 2, 1] = Inr (Fin 0)
   \<and> log_prior (example_model 2 line_spline [0]) [1 / 2, 12 / 10] = Inr NegInf"
  using log_prior_flat_bounds [of "example_model 3 line_spline [0]" "1 / 10" 300 1]
        log_prior_flat_bounds [of "example_model 3 line_spline [0]" "11 / 100" 300 1]
        log_prior_flat_bounds [of "example_model 1 line_spline [0]" "1 / 2" 500 1]
        log_prior_flat_bounds [of "example_model 2 line_spline [0]" "1 / 2" 1 1]
        log_prior_flat_bounds [of "example_model 2 line_spline [0]" "1 / 2" 1 "12 / 10"]
  by simp

text \<open>
  C5 (the code departs from the claim). The claim has every rebuilt interpolant hold
  the boundary value beyond the sampled range. In each of the three evaluators
  \<open>rescaled_xi_r\<close> is built without \<open>ext=3\<close>, while the interpolants built on the
  lines next to it, and \<open>self.xi_r\<close> itself, have it. On the four-sample model with the
  profile values 1, 2, 3, 4 at the radii 1, 2, 3, 4 and no distortion, the original
  \<open>xi_r\<close> and the rebuilt \<open>delta\<close>, \<open>Delta\<close>, \<open>sv\<close>, \<open>vr\<close>, \<open>dvr\<close> return
  the boundary value 4 at radius 5, and the rebuilt \<open>xi_r\<close> returns 5, the value of the
  polynomial through the samples.
\<close>

theorem rescaled_xi_r_extrapolates:
  "model1_rescaled cubic_fit (example_model 1 line_spline [0]) 1 1 =
     Inr (line_rescaled Ext0, line_rescaled Ext3, line_rescaled Ext3, line_rescaled Ext3)
   \<and> model2_rescaled cubic_fit (example_model 2 line_spline [0]) 1 1 =
     Inr (line_rescaled Ext0, line_rescaled Ext3, line_rescaled Ext3)
   \<and> model3_rescaled cubic_fit (example_model 3 line_spline [0]) 1 1 =
     Inr (line_rescaled Ext0, line_rescaled Ext3, line_rescaled Ext3,
          line_rescaled Ext3, line_rescaled Ext3, line_rescaled Ext3)
   \<and> spline_call (xi_r (example_model 1 line_spline [0])) 5 = 4
   \<and> spline_call (line_rescaled Ext3) 5 = 4
   \<and> spline_call (line_rescaled Ext0) 5 = 5"
proof -
  have orig: "spline_call (xi_r (example_model 1 line_spline [0])) 5 = 4"
    by (simp add: example_model_def line_spline_def spline_call_def)
  have clamped: "spline_call (line_rescaled Ext3) 5 = 4"
    by (simp add: spline_call_def line_rescaled_def cubic_fit_line)
  have extrapolated: "spline_call (line_rescaled Ext0) 5 = 5"
    by (simp add: spline_call_def line_rescaled_def cubic_fit_line)
  show ?thesis
    using orig clamped extrapolated
    by (simp add: model1_rescaled_line model2_rescaled_line model3_rescaled_line)
qed

text \<open>
  C6 (counterexample). At \<open>fs8 = 0\<close> the prediction still depends on \<open>mu\<close> when
  \<open>alpha_perp \<noteq> alpha_para\<close>: with \<open>alpha_perp = 2\<close>, \<open>alpha_para = 1/4\<close> on the
  four-sample model, \<open>xi_model\<close> at \<open>s = 1\<close> differs between \<open>mu = 0\<close> and
  \<open>mu = 1\<close>, so it cannot equal \<open>xi_r(1)\<close> at both.
\<close>

theorem model2_fs8_zero_depends_on_mu:
  "model2_xi_model cubic_fit (example_model 2 line_spline [0]) 0 2 (1 / 4) 1 0
   \<noteq> model2_xi_model cubic_fit (example_model 2 line_spline [0]) 0 2 (1 / 4) 1 1"
proof -
  have q0: "(2::real) = sqrt ((1 * 0 * (1 / 4)) ^ 2 + (1 * sqrt (1 - 0 ^ 2) * 2) ^ 2)"
    by simp
  have a: "model2_xi_model cubic_fit (example_model 2 line_spline [0]) 0 2 (1 / 4) 1 0
           = Inr (2 / example_c)"
    using model2_xi_model_distorted [OF _ q0] by simp
  have "sqrt ((1 / 4) ^ 2) = (1 / 4 :: real)"
    by (simp only: real_sqrt_abs)
  then have q1: "(1 / 4 :: real) = sqrt ((1 * 1 * (1 / 4)) ^ 2 + (1 * sqrt (1 - 1 ^ 2) * 2) ^ 2)"
    by simp
  have b: "model2_xi_model cubic_fit (example_model 2 line_spline [0]) 0 2 (1 / 4) 1 1
           = Inr ((1 / 4) / example_c)"
    using model2_xi_model_distorted [OF _ q1] by simp
  show ?thesis
    using example_c_pos unfolding a b by (simp add: field_simps)
qed

text \<open>
  C6 (as amended). When the rescaling step succeeds, \<open>0 < s\<close> and \<open>-1 \<le> mu \<le> 1\<close>:
  at \<open>fs8 = 0\<close> \<open>xi_model(s, mu)\<close> is the rebuilt real-space interpolant at
  \<open>true_s = sqrt((s\<cdot>mu\<cdot>alpha_para)\<^sup>2 + (s\<cdot>sqrt(1 - mu\<^sup>2)\<cdot>alpha_perp)\<^sup>2)\<close>; when moreover
  \<open>alpha_perp = alpha_para = 1\<close> it is that interpolant at \<open>s\<close>, independent of
  \<open>mu\<close>; and at every sampled radius \<open>s\<close> it equals \<open>xi_r(s)\<close>, provided the spline
  fit passes through its samples.
\<close>

theorem model2_no_growth:
  assumes R: "model2_rescaled fit m alpha_perp alpha_para =
                Inr (rescaled_xi_r, rescaled_delta_r, rescaled_Delta_r)"
      and s: "0 < s" and mu: "- 1 \<le> mu" "mu \<le> 1"
  shows "model2_xi_model fit m 0 alpha_perp alpha_para s mu =
           Inr (spline_call rescaled_xi_r
                  (sqrt ((s * mu * alpha_para) ^ 2 + (s * sqrt (1 - mu ^ 2) * alpha_perp) ^ 2)))
       \<and> (alpha_perp = 1 \<and> alpha_para = 1 \<longrightarrow>
            model2_xi_model fit m 0 alpha_perp alpha_para s mu =
              Inr (spline_call rescaled_xi_r s))
       \<and> (alpha_perp = 1 \<and> alpha_para = 1 \<and> s \<in> set (r_for_delta m)
            \<and> interpolates fit (r_for_delta m) (xi_r m) \<longrightarrow>
            model2_xi_model fit m 0 alpha_perp alpha_para s mu =
              Inr (spline_call (xi_r m) s))"
proof -
  have general: "model2_xi_model fit m 0 alpha_perp alpha_para s mu =
           Inr (spline_call rescaled_xi_r
                  (sqrt ((s * mu * alpha_para) ^ 2 + (s * sqrt (1 - mu ^ 2) * alpha_perp) ^ 2)))"
    unfolding model2_xi_model_def R
    by (simp add: bind_err_def model2_point_no_growth)
  have undistorted: "model2_xi_model fit m 0 alpha_perp alpha_para s mu =
              Inr (spline_call rescaled_xi_r s)"
    if "alpha_perp = 1" and "alpha_para = 1"
    using general true_s_identity [of s mu] s mu that by simp
  have sampled: "spline_call rescaled_xi_r s = spline_call (xi_r m) s"
    if one: "alpha_perp = 1" "alpha_para = 1" and node: "s \<in> set (r_for_delta m)"
      and inter: "interpolates fit (r_for_delta m) (xi_r m)"
  proof -
    have built: "rescaled_spline fit Ext0 1 1 (r_for_delta m) (xi_r m) = Inr rescaled_xi_r"
      using model2_rescaled_Inr [OF R] one by simp
    then have "sorted_wrt (<) (r_for_delta m)" and "3 < length (r_for_delta m)"
      by (simp_all add: rescaled_spline_def rescaled_r_identity IUS_Inr_iff)
    from rescaled_spline_identity [OF this inter, of Ext0] built node
    show ?thesis by auto
  qed
  show ?thesis
    using general undistorted sampled by simp
qed

theorem model2_no_growth_witness:
  "model2_xi_model cubic_fit (example_model 2 line_spline [0]) 0 1 1 2 (3 / 5)
     = Inr (spline_call (line_rescaled Ext0) 2)
   \<and> model2_xi_model cubic_fit (example_model 2 line_spline [0]) 0 1 1 2 (3 / 5)
     = Inr (spline_call line_spline 2)
   \<and> spline_call line_spline 2 = 2"
proof -
  let ?m = "example_model 2 line_spline [0]"
  have R: "model2_rescaled cubic_fit ?m 1 1 =
             Inr (line_rescaled Ext0, line_rescaled Ext3, line_rescaled Ext3)"
    by (rule model2_rescaled_line)
  have h: "(0::real) < 2" "- 1 \<le> (3 / 5 :: real)" "(3 / 5 :: real) \<le> 1"
    by simp_all
  have node: "(2::real) \<in> set (r_for_delta ?m)"
    by (simp add: example_model_def)
  have inter: "interpolates cubic_fit (r_for_delta ?m) (xi_r ?m)"
    by (simp add: example_model_def interpolates_line)
  note inst = model2_no_growth [OF R h]
  have c2: "model2_xi_model cubic_fit ?m 0 1 1 2 (3 / 5) = Inr (spline_call (line_rescaled Ext0) 2)"
    using inst by blast
  have c3: "model2_xi_model cubic_fit ?m 0 1 1 2 (3 / 5) = Inr (spline_call (xi_r ?m) 2)"
    using inst node inter by blast
  have xi: "xi_r ?m = line_spline"
    by (simp add: example_model_def)
  have "spline_call line_spline 2 = 2"
    by (simp add: spline_call_def line_spline_def)
  with c2 c3 show ?thesis
    unfolding xi by simp
qed

text \<open>
  C7 (counterexample). Between the sampled radii a rebuilt interpolant need not agree with
  the original one, even at \<open>alpha_perp = alpha_para = 1\<close> where the rescaled radii are
  the radii themselves. The profile fitted to 0, 0, 0, 1, 8 at the radii 1 to 5 vanishes
  at 2.5; after the fitting window dropped the radius 5, the interpolant rebuilt on the
  radii 1 to 4 (with \<open>ext=3\<close>, inside its sampled range) is the cubic through
  0, 0, 0, 1 and returns \<open>-1/16\<close> there.
\<close>

theorem rebuilt_differs_between_radii:
  "rescaled_r 1 1 (r_for_delta (example_model 1 knot_spline [0]))
     = r_for_delta (example_model 1 knot_spline [0])
   \<and> model1_rescaled cubic_fit (example_model 1 knot_spline [0]) 1 1 =
       Inr (knot_rescaled Ext0, knot_rescaled Ext3, knot_rescaled Ext3, knot_rescaled Ext3)
   \<and> model2_rescaled cubic_fit (example_model 1 knot_spline [0]) 1 1 =
       Inr (knot_rescaled Ext0, knot_rescaled Ext3, knot_rescaled Ext3)
   \<and> spline_call (delta_r (example_model 1 knot_spline [0])) (5 / 2) = 0
   \<and> spline_call (knot_rescaled Ext3) (5 / 2) = - 1 / 16
   \<and> spline_call (knot_rescaled Ext3) (5 / 2)
       \<noteq> spline_call (delta_r (example_model 1 knot_spline [0])) (5 / 2)"
proof -
  have orig: "spline_call (delta_r (example_model 1 knot_spline [0])) (5 / 2) = 0"
    by (simp add: example_model_def knot_spline_def spline_call_def)
  have rebuilt: "spline_call (knot_rescaled Ext3) (5 / 2) = - 1 / 16"
    by (simp add: spline_call_def knot_rescaled_def cubic_fit_knot)
  have m1: "model1_rescaled cubic_fit (example_model 1 knot_spline [0]) 1 1 =
       Inr (knot_rescaled Ext0, knot_rescaled Ext3, knot_rescaled Ext3, knot_rescaled Ext3)"
    by (simp add: model1_rescaled_def example_model_def rescaled_spline_knot bind_err_def)
  have m2: "model2_rescaled cubic_fit (example_model 1 knot_spline [0]) 1 1 =
       Inr (knot_rescaled Ext0, knot_rescaled Ext3, knot_rescaled Ext3)"
    by (simp add: model2_rescaled_def example_model_def rescaled_spline_knot bind_err_def)
  show ?thesis
    unfolding orig rebuilt m1 m2 by (simp add: rescaled_r_identity)
qed

text \<open>
  C7 (as amended). At \<open>alpha_perp = alpha_para = 1\<close> the rescaled radii are the radii
  themselves (on the reals, where the trapezoidal sum of a constant over \<open>[0, 1]\<close> is
  exact). If the radii are strictly increasing, more than three, and the spline fit
  passes through the samples of each profile, then the rescaling step of each evaluator
  succeeds (for \<open>model1_theory\<close> and \<open>model3_theory\<close> when the profiles they read are
  set) and each rebuilt interpolant agrees with the original one at every sampled radius.
\<close>

theorem identity_rescaling:
  assumes srt: "sorted_wrt (<) (r_for_delta m)" and len: "3 < length (r_for_delta m)"
      and ixi: "interpolates fit (r_for_delta m) (xi_r m)"
      and idelta: "interpolates fit (r_for_delta m) (delta_r m)"
      and iDelta: "interpolates fit (r_for_delta m) (Delta_r m)"
  shows "rescaled_r 1 1 (r_for_delta m) = r_for_delta m
       \<and> (\<exists>rescaled_xi_r rescaled_delta_r rescaled_Delta_r.
            model2_rescaled fit m 1 1 = Inr (rescaled_xi_r, rescaled_delta_r, rescaled_Delta_r)
            \<and> (\<forall>ri\<in>set (r_for_delta m).
                  spline_call rescaled_xi_r ri = spline_call (xi_r m) ri
                \<and> spline_call rescaled_delta_r ri = spline_call (delta_r m) ri
                \<and> spline_call rescaled_Delta_r ri = spline_call (Delta_r m) ri))
       \<and> (\<forall>sv_prof.
            sv m = Some sv_prof \<and> interpolates fit (r_for_delta m) sv_prof \<longrightarrow>
            (\<exists>rescaled_xi_r rescaled_delta_r rescaled_Delta_r rescaled_sv.
               model1_rescaled fit m 1 1 =
                 Inr (rescaled_xi_r, rescaled_delta_r, rescaled_Delta_r, rescaled_sv)
               \<and> (\<forall>ri\<in>set (r_for_delta m).
                     spline_call rescaled_xi_r ri = spline_call (xi_r m) ri
                   \<and> spline_call rescaled_delta_r ri = spline_call (delta_r m) ri
                   \<and> spline_call rescaled_Delta_r ri = spline_call (Delta_r m) ri
                   \<and> spline_call rescaled_sv ri = spline_call sv_prof ri)))
       \<and> (\<forall>sv_prof vr_prof dvr_prof.
            sv m = Some sv_prof \<and> vr m = Some vr_prof \<and> dvr m = Some dvr_prof
            \<and> interpolates fit (r_for_delta m) sv_prof
            \<and> interpolates fit (r_for_delta m) vr_prof
            \<and> interpolates fit (r_for_delta m) dvr_prof \<longrightarrow>
            (\<exists>rescaled_xi_r rescaled_delta_r rescaled_Delta_r rescaled_vr rescaled_dvr
                rescaled_sv.
               model3_rescaled fit m 1 1 =
                 Inr (rescaled_xi_r, rescaled_delta_r, rescaled_Delta_r,
                      rescaled_vr, rescaled_dvr, rescaled_sv)
               \<and> (\<forall>ri\<in>set (r_for_delta m).
                     spline_call rescaled_xi_r ri = spline_call (xi_r m) ri
                   \<and> spline_call rescaled_delta_r ri = spline_call (delta_r m) ri
                   \<and> spline_call rescaled_Delta_r ri = spline_call (Delta_r m) ri
                   \<and> spline_call rescaled_vr ri = spline_call vr_prof ri
                   \<and> spline_call rescaled_dvr ri = spline_call dvr_prof ri
                   \<and> spline_call rescaled_sv ri = spline_call sv_prof ri)))"
proof -
  let ?r = "r_for_delta m"
  obtain rx where rx: "rescaled_spline fit Ext0 1 1 ?r (xi_r m) = Inr rx"
    and rx_eq: "\<forall>ri\<in>set ?r. spline_call rx ri = spline_call (xi_r m) ri"
    using rescaled_ok [OF srt len ixi] by blast
  obtain rd where rd: "rescaled_spline fit Ext3 1 1 ?r (delta_r m) = Inr rd"
    and rd_eq: "\<forall>ri\<in>set ?r. spline_call rd ri = spline_call (delta_r m) ri"
    using rescaled_ok [OF srt len idelta] by blast
  obtain rD where rD: "rescaled_spline fit Ext3 1 1 ?r (Delta_r m) = Inr rD"
    and rD_eq: "\<forall>ri\<in>set ?r. spline_call rD ri = spline_call (Delta_r m) ri"
    using rescaled_ok [OF srt len iDelta] by blast
  have m2: "model2_rescaled fit m 1 1 = Inr (rx, rd, rD)"
    by (simp add: model2_rescaled_def rx rd rD bind_err_def)
  have part2: "\<exists>rescaled_xi_r rescaled_delta_r rescaled_Delta_r.
            model2_rescaled fit m 1 1 = Inr (rescaled_xi_r, rescaled_delta_r, rescaled_Delta_r)
            \<and> (\<forall>ri\<in>set ?r.
                  spline_call rescaled_xi_r ri = spline_call (xi_r m) ri
                \<and> spline_call rescaled_delta_r ri = spline_call (delta_r m) ri
                \<and> spline_call rescaled_Delta_r ri = spline_call (Delta_r m) ri)"
    using m2 rx_eq rd_eq rD_eq by blast
  have part1: "\<exists>rescaled_xi_r rescaled_delta_r rescaled_Delta_r rescaled_sv.
               model1_rescaled fit m 1 1 =
                 Inr (rescaled_xi_r, rescaled_delta_r, rescaled_Delta_r, rescaled_sv)
               \<and> (\<forall>ri\<in>set ?r.
                     spline_call rescaled_xi_r ri = spline_call (xi_r m) ri
                   \<and> spline_call rescaled_delta_r ri = spline_call (delta_r m) ri
                   \<and> spline_call rescaled_Delta_r ri = spline_call (Delta_r m) ri
                   \<and> spline_call rescaled_sv ri = spline_call sv_prof ri)"
    if sv: "sv m = Some sv_prof" and isv: "interpolates fit ?r sv_prof" for sv_prof
  proof -
    obtain rs where rs: "rescaled_spline fit Ext3 1 1 ?r sv_prof = Inr rs"
      and rs_eq: "\<forall>ri\<in>set ?r. spline_call rs ri = spline_call sv_prof ri"
      using rescaled_ok [OF srt len isv] by blast
    have "model1_rescaled fit m 1 1 = Inr (rx, rd, rD, rs)"
      by (simp add: model1_rescaled_def sv rx rd rD rs bind_err_def)
    then show ?thesis
      using rx_eq rd_eq rD_eq rs_eq by blast
  qed
  have part3: "\<exists>rescaled_xi_r rescaled_delta_r rescaled_Delta_r rescaled_vr rescaled_dvr
                rescaled_sv.
               model3_rescaled fit m 1 1 =
                 Inr (rescaled_xi_r, rescaled_delta_r, rescaled_Delta_r,
                      rescaled_vr, rescaled_dvr, rescaled_sv)
               \<and> (\<forall>ri\<in>set ?r.
                     spline_call rescaled_xi_r ri = spline_call (xi_r m) ri
                   \<and> spline_call rescaled_delta_r ri = spline_call (delta_r m) ri
                   \<and> spline_call rescaled_Delta_r ri = spline_call (Delta_r m) ri
                   \<and> spline_call rescaled_vr ri = spline_call vr_prof ri
                   \<and> spline_call rescaled_dvr ri = spline_call dvr_prof ri
                   \<and> spline_call rescaled_sv ri = spline_call sv_prof ri)"
    if sv: "sv m = Some sv_prof" and vr: "vr m = Some vr_prof" and dvr: "dvr m = Some dvr_prof"
      and isv: "interpolates fit ?r sv_prof" and ivr: "interpolates fit ?r vr_prof"
      and idvr: "interpolates fit ?r dvr_prof"
    for sv_prof vr_prof dvr_prof
  proof -
    obtain rs where rs: "rescaled_spline fit Ext3 1 1 ?r sv_prof = Inr rs"
      and rs_eq: "\<forall>ri\<in>set ?r. spline_call rs ri = spline_call sv_prof ri"
      using rescaled_ok [OF srt len isv] by blast
    obtain rv where rv: "rescaled_spline fit Ext3 1 1 ?r vr_prof = Inr rv"
      and rv_eq: "\<forall>ri\<in>set ?r. spline_call rv ri = spline_call vr_prof ri"
      using rescaled_ok [OF srt len ivr] by blast
    obtain rdv where rdv: "rescaled_spline fit Ext3 1 1 ?r dvr_prof = Inr rdv"
      and rdv_eq: "\<forall>ri\<in>set ?r. spline_call rdv ri = spline_call dvr_prof ri"
      using rescaled_ok [OF srt len idvr] by blast
    have "model3_rescaled fit m 1 1 = Inr (rx, rd, rD, rv, rdv, rs)"
      by (simp add: model3_rescaled_def sv vr dvr rx rd rD rs rv rdv bind_err_def)
    then show ?thesis
      using rx_eq rd_eq rD_eq rs_eq rv_eq rdv_eq by blast
  qed
  show ?thesis
    using part1 part2 part3 by (simp add: rescaled_r_identity)
qed

theorem identity_rescaling_witness:
  "rescaled_r 1 1 [1, 2, 3, 4] = [1, 2, 3, 4]
   \<and> model3_rescaled cubic_fit (example_model 3 line_spline [0]) 1 1 =
       Inr (line_rescaled Ext0, line_rescaled Ext3, line_rescaled Ext3,
            line_rescaled Ext3, line_rescaled Ext3, line_rescaled Ext3)
   \<and> model1_rescaled cubic_fit (example_model 3 line_spline [0]) 1 1 =
       Inr (line_rescaled Ext0, line_rescaled Ext3, line_rescaled Ext3, line_rescaled Ext3)
   \<and> spline_call (line_rescaled Ext0) 3 = spline_call line_spline 3
   \<and> spline_call (line_rescaled Ext3) 4 = spline_call line_spline 4"
proof -
  let ?m = "example_model 3 line_spline [0]"
  have r: "r_for_delta ?m = [1, 2, 3, 4]"
    by (simp add: example_model_def)
  have h1: "sorted_wrt (<) (r_for_delta ?m)" by (simp add: r)
  have h2: "3 < length (r_for_delta ?m)" by (simp add: r)
  have h3: "interpolates cubic_fit (r_for_delta ?m) (xi_r ?m)"
    by (simp add: example_model_def interpolates_line)
  have h4: "interpolates cubic_fit (r_for_delta ?m) (delta_r ?m)"
    by (simp add: example_model_def interpolates_line)
  have h5: "interpolates cubic_fit (r_for_delta ?m) (Delta_r ?m)"
    by (simp add: example_model_def interpolates_line)
  have attrs: "sv ?m = Some line_spline" "vr ?m = Some line_spline" "dvr ?m = Some line_spline"
    by (simp_all add: example_model_def)
  have il: "interpolates cubic_fit (r_for_delta ?m) line_spline"
    by (simp add: example_model_def interpolates_line)
  note inst = identity_rescaling [OF h1 h2 h3 h4 h5]
  have radii: "rescaled_r 1 1 [1, 2, 3, 4] = [1, 2, 3, 4]"
    using inst unfolding r by blast
  have hyps: "sv ?m = Some line_spline \<and> vr ?m = Some line_spline \<and> dvr ?m = Some line_spline
      \<and> interpolates cubic_fit (r_for_delta ?m) line_spline
      \<and> interpolates cubic_fit (r_for_delta ?m) line_spline
      \<and> interpolates cubic_fit (r_for_delta ?m) line_spline"
    using attrs il by simp
  note third = inst [THEN conjunct2, THEN conjunct2, THEN conjunct2, rule_format, OF hyps]
  then obtain rx rd rD rv rdv rs
    where built: "model3_rescaled cubic_fit ?m 1 1 = Inr (rx, rd, rD, rv, rdv, rs)"
      and agree: "\<forall>ri\<in>set (r_for_delta ?m).
                spline_call rx ri = spline_call (xi_r ?m) ri
              \<and> spline_call rs ri = spline_call line_spline ri"
    by blast
  have same: "rx = line_rescaled Ext0" "rs = line_rescaled Ext3"
    using built unfolding model3_rescaled_line by auto
  have nodes: "\<forall>ri\<in>set [1, 2, 3, 4].
       spline_call (line_rescaled Ext0) ri = spline_call line_spline ri
     \<and> spline_call (line_rescaled Ext3) ri = spline_call line_spline ri"
    using agree unfolding same r by (simp add: example_model_def)
  show ?thesis
    using radii nodes by (simp add: model3_rescaled_line model1_rescaled_line)
qed

text \<open>
  C8. On a grid whose angle cosines are strictly increasing (as \<open>np.unique\<close> leaves
  them) and whose rows have one value per cosine, the reader's \<open>_getMonopole\<close> and
  \<open>_getQuadrupole\<close> return, row by row, the first and the second component of the
  reduction that the theory evaluators apply to the same samples: the sorting reduction
  of \<open>model1_theory\<close> and \<open>model2_theory\<close>, and the reduction of \<open>model3_theory\<close>,
  which does not sort. This holds for every spline fit and every integrator, and it
  includes the cases in which both sides raise.
\<close>

theorem multipole_extraction_shared:
  assumes "sorted_wrt (<) mu" and "\<forall>row\<in>set xi_smu. length row = length mu"
  shows "getMonopole fit simps s mu xi_smu =
           bind_err (collect (map (theory_multipoles fit simps mu) xi_smu))
             (\<lambda>res. Inr (s, map fst res))
         \<and> getQuadrupole fit simps s mu xi_smu =
           bind_err (collect (map (theory_multipoles fit simps mu) xi_smu))
             (\<lambda>res. Inr (s, map snd res))
         \<and> getMonopole fit simps s mu xi_smu =
           bind_err (collect (map (theory3_multipoles fit simps mu) xi_smu))
             (\<lambda>res. Inr (s, map fst res))
         \<and> getQuadrupole fit simps s mu xi_smu =
           bind_err (collect (map (theory3_multipoles fit simps mu) xi_smu))
             (\<lambda>res. Inr (s, map snd res))"
  unfolding map_theory_multipoles_sorted [OF assms]
  by (simp add: getMonopole_theory3 getQuadrupole_theory3)

theorem multipole_extraction_shared_witness:
  "getMonopole cubic_fit simps_avg [10, 20] [-1, 0, 3 / 5, 1] [[1, 2, 3, 4], [0, 0, 1, 0]] =
       bind_err (collect (map (theory_multipoles cubic_fit simps_avg [-1, 0, 3 / 5, 1])
                            [[1, 2, 3, 4], [0, 0, 1, 0]]))
         (\<lambda>res. Inr ([10, 20], map fst res))
   \<and> getQuadrupole cubic_fit simps_avg [10, 20] [-1, 0, 3 / 5, 1] [[1, 2, 3, 4], [0, 0, 1, 0]] =
       bind_err (collect (map (theory_multipoles cubic_fit simps_avg [-1, 0, 3 / 5, 1])
                            [[1, 2, 3, 4], [0, 0, 1, 0]]))
         (\<lambda>res. Inr ([10, 20], map snd res))"
proof -
  have h1: "sorted_wrt (<) [-1, 0, 3 / 5, 1 :: real]" by simp
  have h2: "\<forall>row\<in>set [[1, 2, 3, 4 :: real], [0, 0, 1, 0]]. length row = length [-1, 0, 3 / 5, 1 :: real]"
    by simp
  show ?thesis
    using multipole_extraction_shared [OF h1 h2, of cubic_fit simps_avg "[10, 20]"]
    by blast
qed

text \<open>
  C9. When \<open>log_prior\<close> returns negative infinity, \<open>log_probability\<close> returns negative
  infinity and the trace of calls holds \<open>log_prior\<close> alone: \<open>log_likelihood\<close> was not
  called. When \<open>log_prior\<close> returns a finite value, \<open>log_likelihood\<close> is called once
  and the result is the sum of the two (or the exception that the likelihood raised).
\<close>

theorem log_probability_short_circuit:
  "(log_prior m theta = Inr NegInf \<longrightarrow>
      log_probability fit simps m theta = (Inr NegInf, [CallLogPrior]))
   \<and> (\<forall>lp. log_prior m theta = Inr lp \<and> isfinite lp \<longrightarrow>
      log_probability fit simps m theta =
        (map_sum id (fadd lp) (log_likelihood fit simps m theta),
         [CallLogPrior, CallLogLikelihood]))"
  by (auto simp: log_probability_def split: sum.splits)

theorem log_probability_short_circuit_witness:
  "log_probability cubic_fit simps_avg (example_model 3 line_spline [0]) [1 / 10, 300, 1]
     = (Inr NegInf, [CallLogPrior])
   \<and> log_probability cubic_fit simps_avg (example_model 2 null_spline [0]) [1 / 2, 1]
     = (Inr (Fin 0), [CallLogPrior, CallLogLikelihood])"
proof -
  have rejected: "log_prior (example_model 3 line_spline [0]) [1 / 10, 300, 1] = Inr NegInf"
    by (simp add: log_prior_def)
  have accepted: "log_prior (example_model 2 null_spline [0]) [1 / 2, 1] = Inr (Fin 0)"
    by (simp add: log_prior_def)
  have first: "log_probability cubic_fit simps_avg (example_model 3 line_spline [0])
                 [1 / 10, 300, 1] = (Inr NegInf, [CallLogPrior])"
    using log_probability_short_circuit
            [of "example_model 3 line_spline [0]" "[1 / 10, 300, 1]" cubic_fit simps_avg]
          rejected
    by blast
  have "isfinite (Fin 0)" by simp
  with accepted
  have "log_probability cubic_fit simps_avg (example_model 2 null_spline [0]) [1 / 2, 1]
        = (map_sum id (fadd (Fin 0))
             (log_likelihood cubic_fit simps_avg (example_model 2 null_spline [0]) [1 / 2, 1]),
           [CallLogPrior, CallLogLikelihood])"
    using log_probability_short_circuit
            [of "example_model 2 null_spline [0]" "[1 / 2, 1]" cubic_fit simps_avg]
    by blast
  then have second: "log_probability cubic_fit simps_avg (example_model 2 null_spline [0])
                       [1 / 2, 1] = (Inr (Fin 0), [CallLogPrior, CallLogLikelihood])"
    by (simp add: log_likelihood_null)
  from first second show ?thesis by simp
qed



end
